theory Spec2Isabelle
  imports Complex_Main "HOL-Library.Sublist"
begin

section \<open>Python values\<close>

text \<open>
  The monitor is the second script of \<^verbatim>\<open>src/1224.py\<close> (classes
  \<^verbatim>\<open>MetricsRepository\<close>, \<^verbatim>\<open>MetricChart\<close>, \<^verbatim>\<open>PcMonitorApp\<close>).
  A Python float is a number or the value \<^verbatim>\<open>nan\<close>, which GPUtil reports for a
  reading the driver does not provide. Numbers are real numbers: sums, means and
  comparisons are exact, and rounding of binary floating point is outside this
  development. The temperature sources of the processor compute with the numbers they
  read, and a text that reads as \<^verbatim>\<open>nan\<close> fails their range tests like any text that
  is no number.

  An exception is a value of \<open>exn\<close>; a call that may raise returns \<open>exn + 'a\<close>
  with \<open>Inl\<close> for the exception.
\<close>

datatype exn =
    ValueError
  | FileNotFoundError
  | SubprocessError
  | PermissionError
  | OSError
  | OperationalError
  | IntegrityError
  | OtherException

datatype pyfloat = Num real | NaN

text \<open>Multiplication of floats: \<^verbatim>\<open>nan\<close> in, \<^verbatim>\<open>nan\<close> out.\<close>

fun fmul :: "pyfloat \<Rightarrow> pyfloat \<Rightarrow> pyfloat" where
  "fmul (Num a) (Num b) = Num (a * b)"
| "fmul x y = NaN"

text \<open>\<^verbatim>\<open>sum(values) / len(values)\<close>, only called on a non-empty list.\<close>

definition mean :: "real list \<Rightarrow> real" where
  "mean vs = sum_list vs / real (length vs)"

section \<open>MetricChart: the rolling history\<close>

text \<open>
  \<^verbatim>\<open>collections.deque.append\<close> on a deque with \<^verbatim>\<open>maxlen\<close>: the value is
  appended on the right, and when the deque is then longer than \<^verbatim>\<open>maxlen\<close> one
  element is removed from the left.
\<close>

definition deque_append :: "nat \<Rightarrow> 'a list \<Rightarrow> 'a \<Rightarrow> 'a list" where
  "deque_append maxlen d x =
     (let d' = d @ [x] in if maxlen < length d' then tl d' else d')"

text \<open>\<^verbatim>\<open>deque(iterable, maxlen=n)\<close> appends the elements one by one.\<close>

definition deque_new :: "nat \<Rightarrow> 'a list \<Rightarrow> 'a list" where
  "deque_new maxlen xs = foldl (deque_append maxlen) [] xs"

text \<open>
  A display text is kept as the pieces of the f-string that builds it: a literal piece
  (UTF-8 bytes) or a float formatted with \<^verbatim>\<open>:.1f\<close>.
\<close>

datatype piece = Lit string | Fixed1 pyfloat

type_synonym pytext = "piece list"

text \<open>Python's truth value of a string: the rendered text is empty.\<close>

fun piece_empty :: "piece \<Rightarrow> bool" where
  "piece_empty (Lit s) = (s = [])"
| "piece_empty (Fixed1 v) = False"

definition text_empty :: "pytext \<Rightarrow> bool" where
  "text_empty t = list_all piece_empty t"

text \<open>UTF-8 bytes of \<^verbatim>\<open>"Tekushchee znachenie: "\<close> as the source spells it in Cyrillic.\<close>

definition txt_current_value :: string where
  "txt_current_value =
     [CHR 0xD0, CHR 0xA2, CHR 0xD0, CHR 0xB5, CHR 0xD0, CHR 0xBA, CHR 0xD1, CHR 0x83,
      CHR 0xD1, CHR 0x89, CHR 0xD0, CHR 0xB5, CHR 0xD0, CHR 0xB5] @ '' '' @
     [CHR 0xD0, CHR 0xB7, CHR 0xD0, CHR 0xBD, CHR 0xD0, CHR 0xB0, CHR 0xD1, CHR 0x87,
      CHR 0xD0, CHR 0xB5, CHR 0xD0, CHR 0xBD, CHR 0xD0, CHR 0xB8, CHR 0xD0, CHR 0xB5] @ '': ''"

text \<open>
  The state of a \<^verbatim>\<open>MetricChart\<close> that the monitor reads back: the capacity, the
  unit, the deque \<^verbatim>\<open>history\<close> and the text of \<^verbatim>\<open>value_var\<close>. The canvas is
  redrawn from \<^verbatim>\<open>history\<close> and holds no state of its own.
\<close>

record chart =
  max_points :: nat
  unit_text :: string
  history :: "pyfloat list"
  value_var :: pytext

text \<open>
  \<^verbatim>\<open>MetricChart.__init__\<close>: \<^verbatim>\<open>deque([0.0] * max_points, maxlen=max_points)\<close>.
  A negative \<^verbatim>\<open>maxlen\<close> makes \<^verbatim>\<open>deque\<close> raise \<^verbatim>\<open>ValueError\<close>.
\<close>

definition MetricChart_init :: "int \<Rightarrow> string \<Rightarrow> exn + chart" where
  "MetricChart_init mp u =
     (if mp < 0 then Inl ValueError
      else Inr \<lparr> max_points = nat mp,
                 unit_text = u,
                 history = deque_new (nat mp) (replicate (nat mp) (Num 0)),
                 value_var = [Lit (txt_current_value @ ''0.0''), Lit u] \<rparr>)"

text \<open>
  \<^verbatim>\<open>MetricChart.update_value\<close>: append to the history, then set the text to
  \<^verbatim>\<open>display_text or f"...{value:.1f}{self.unit}"\<close>.
\<close>

definition update_value :: "chart \<Rightarrow> pyfloat \<Rightarrow> pytext option \<Rightarrow> chart" where
  "update_value c v display_text =
     c \<lparr> history := deque_append (max_points c) (history c) v,
         value_var :=
           (case display_text of
              None \<Rightarrow> [Lit txt_current_value, Fixed1 v, Lit (unit_text c)]
            | Some t \<Rightarrow>
                if text_empty t then [Lit txt_current_value, Fixed1 v, Lit (unit_text c)]
                else t) \<rparr>"

text \<open>A chart of capacity \<open>n\<close> and unit \<^verbatim>\<open>%\<close> as the constructor leaves it.\<close>

definition the_chart :: "nat \<Rightarrow> chart" where
  "the_chart n =
     \<lparr> max_points = n, unit_text = ''%'', history = replicate n (Num 0),
       value_var = [Lit (txt_current_value @ ''0.0''), Lit ''%''] \<rparr>"

text \<open>Pushing a sequence of values, oldest first.\<close>

definition push_all :: "chart \<Rightarrow> pyfloat list \<Rightarrow> chart" where
  "push_all c vs = foldl (\<lambda>c v. update_value c v None) c vs"

section \<open>Temperature text of the sensors tool\<close>

text \<open>
  The pattern of \<^verbatim>\<open>_extract_temp_values_from_text\<close> is
  \<^verbatim>\<open>([+-]?\d+(?:\.\d+)?)\s*DEG?C\<close>, where \<^verbatim>\<open>DEG\<close> stands for the degree sign.
  A character of the scanned text is kept as its class under this pattern: a decimal
  digit with its value (\<^verbatim>\<open>\d\<close>), the dot, a sign, white space (\<^verbatim>\<open>\s\<close>), the degree
  sign, the capital letter C, or any other character.
\<close>

datatype sym = Digit nat | Dot | Plus | Minus | Space | Degree | CapC | Other

fun is_digit :: "sym \<Rightarrow> bool" where
  "is_digit (Digit d) = True"
| "is_digit s = False"

fun is_sign :: "sym \<Rightarrow> bool" where
  "is_sign Plus = True"
| "is_sign Minus = True"
| "is_sign s = False"

text \<open>
  One match attempt at the start of \<open>s\<close>. Every quantifier of the pattern is greedy, and
  the classes of neighbouring parts are disjoint, so giving characters back never turns a
  failed attempt into a match: the attempt takes an optional sign, the longest run of
  digits (at least one), a dot with the longest run of digits after it when there is at
  least one, the longest run of white space, an optional degree sign, and then requires
  the letter C. The result is the text of group 1 and the length of the whole match.
\<close>

definition match_at :: "sym list \<Rightarrow> (sym list \<times> nat) option" where
  "match_at s =
     (let sgn = takeWhile is_sign (take 1 s);
          s1 = drop (length sgn) s;
          ds = takeWhile is_digit s1;
          s2 = drop (length ds) s1;
          fr = (case s2 of
                  Dot # r \<Rightarrow> (let fs = takeWhile is_digit r in if fs = [] then [] else Dot # fs)
                | _ \<Rightarrow> []);
          s3 = drop (length fr) s2;
          ws = takeWhile (\<lambda>c. c = Space) s3;
          s4 = drop (length ws) s3;
          dg = takeWhile (\<lambda>c. c = Degree) (take 1 s4);
          s5 = drop (length dg) s4
      in if ds = [] then None
         else (case s5 of
                 CapC # r \<Rightarrow>
                   Some (sgn @ ds @ fr,
                         length sgn + length ds + length fr + length ws + length dg + 1)
               | _ \<Rightarrow> None))"

text \<open>
  \<^verbatim>\<open>re.findall\<close>: scan from the left; after a match continue behind it, after a failed
  attempt continue one character further.
\<close>

fun findall :: "sym list \<Rightarrow> sym list list" where
  "findall [] = []"
| "findall (x # xs) =
     (case match_at (x # xs) of
        None \<Rightarrow> findall xs
      | Some (g, n) \<Rightarrow> g # findall (drop (n - 1) xs))"

text \<open>
  \<^verbatim>\<open>float(match)\<close> on the texts group 1 can hold: an optional sign, digits, and
  optionally a dot and digits. \<open>None\<close> is the \<^verbatim>\<open>ValueError\<close> that the source catches.
\<close>

fun digit_value :: "sym \<Rightarrow> nat" where
  "digit_value (Digit d) = d"
| "digit_value s = 0"

definition digits_value :: "sym list \<Rightarrow> nat" where
  "digits_value ds = foldl (\<lambda>a d. 10 * a + digit_value d) 0 ds"

definition unsigned_value :: "sym list \<Rightarrow> real option" where
  "unsigned_value s =
     (let ds = takeWhile is_digit s; r = drop (length ds) s
      in if ds = [] then None
         else (case r of
                 [] \<Rightarrow> Some (real (digits_value ds))
               | Dot # fs \<Rightarrow>
                   if fs \<noteq> [] \<and> list_all is_digit fs
                   then Some (real (digits_value ds) + real (digits_value fs) / 10 ^ length fs)
                   else None
               | _ \<Rightarrow> None))"

fun py_float :: "sym list \<Rightarrow> real option" where
  "py_float (Plus # s) = unsigned_value s"
| "py_float (Minus # s) = map_option uminus (unsigned_value s)"
| "py_float s = unsigned_value s"

text \<open>\<^verbatim>\<open>_extract_temp_values_from_text\<close>\<close>

definition extract_temp_values_from_text :: "sym list \<Rightarrow> real list" where
  "extract_temp_values_from_text raw_text =
     concat (map (\<lambda>m. case py_float m of
                          None \<Rightarrow> []
                        | Some v \<Rightarrow> if -20 \<le> v \<and> v \<le> 150 then [v] else [])
                 (findall raw_text))"

text \<open>
  What \<^verbatim>\<open>subprocess.run(["sensors"], capture_output=True, text=True, timeout=1,
  check=False)\<close> did: it raised, or it completed with a return code and the text of
  standard output.
\<close>

record completed =
  returncode :: int
  stdout :: "sym list"

text \<open>
  \<^verbatim>\<open>_read_cpu_temp_from_lm_sensors\<close>. Only \<^verbatim>\<open>FileNotFoundError\<close> and
  \<^verbatim>\<open>SubprocessError\<close> (which covers the timeout) are caught; any other exception of
  \<^verbatim>\<open>subprocess.run\<close> leaves the function.
\<close>

definition read_cpu_temp_from_lm_sensors :: "exn + completed \<Rightarrow> exn + real option" where
  "read_cpu_temp_from_lm_sensors run =
     (case run of
        Inl FileNotFoundError \<Rightarrow> Inr None
      | Inl SubprocessError \<Rightarrow> Inr None
      | Inl e \<Rightarrow> Inl e
      | Inr result \<Rightarrow>
          if returncode result \<noteq> 0 \<or> stdout result = [] then Inr None
          else (let values = extract_temp_values_from_text (stdout result)
                in if values = [] then Inr None else Inr (Some (mean values))))"

section \<open>Thermal zones of the kernel\<close>

text \<open>
  A file under a thermal zone: it is not a regular file, reading it raises \<^verbatim>\<open>OSError\<close>,
  or it is read. For \<^verbatim>\<open>temp\<close> the content is the result of \<^verbatim>\<open>float(f.read().strip())\<close>,
  with \<open>None\<close> for \<^verbatim>\<open>ValueError\<close>; for \<^verbatim>\<open>type\<close> it is the text
  \<^verbatim>\<open>f.read().strip().lower()\<close>.
\<close>

datatype 'a sysfile = NoFile | Unreadable | Holds 'a

record zone =
  entry :: string
  temp_file :: "real option sysfile"
  type_file :: "string sysfile"

text \<open>\<^verbatim>\<open>/sys/class/thermal\<close>: not a directory, or \<^verbatim>\<open>os.listdir\<close> raises, or its entries.\<close>

datatype thermal_root = NotADirectory | ListdirRaises exn | Listing "zone list"

text \<open>Python's \<^verbatim>\<open>needle in haystack\<close> on strings.\<close>

fun contains :: "string \<Rightarrow> string \<Rightarrow> bool" where
  "contains needle [] = (needle = [])"
| "contains needle (c # cs) = (prefix needle (c # cs) \<or> contains needle cs)"

text \<open>The body of the loop over the entries: the value appended for one entry, if any.\<close>

definition zone_value :: "zone \<Rightarrow> real option" where
  "zone_value z =
     (if \<not> prefix ''thermal_zone'' (entry z) then None
      else if temp_file z = NoFile then None
      else
        (let zone_type = (case type_file z of Holds s \<Rightarrow> s | _ \<Rightarrow> [])
         in case temp_file z of
              Holds (Some raw) \<Rightarrow>
                (let value = (if raw > 1000 then raw / 1000 else raw)
                 in if -20 \<le> value \<and> value \<le> 150 then
                      (if zone_type \<noteq> [] \<and>
                          (\<not> contains ''cpu'' zone_type \<and> \<not> contains ''x86'' zone_type
                           \<and> \<not> contains ''package'' zone_type)
                       then None
                       else Some value)
                    else None)
            | _ \<Rightarrow> None))"

text \<open>\<^verbatim>\<open>_read_cpu_temp_from_sysfs\<close>\<close>

definition read_cpu_temp_from_sysfs :: "thermal_root \<Rightarrow> exn + real option" where
  "read_cpu_temp_from_sysfs zone_root =
     (case zone_root of
        NotADirectory \<Rightarrow> Inr None
      | ListdirRaises e \<Rightarrow> Inl e
      | Listing entries \<Rightarrow>
          (let values = List.map_filter zone_value entries
           in if values = [] then Inr None else Inr (Some (mean values))))"

text \<open>
  The reference algorithm as the specification words it: the raw value is divided by
  1000 when its magnitude exceeds 1000; values outside \<open>[-20, 150]\<close> are discarded; a
  zone whose type label is available and names nothing related to the processor is
  skipped; a zone whose label is unavailable is included; the result is the mean of the
  included values, or no data.
\<close>

definition cpu_related :: "string \<Rightarrow> bool" where
  "cpu_related label =
     (contains ''cpu'' label \<or> contains ''x86'' label \<or> contains ''package'' label)"

definition spec_zone_value :: "zone \<Rightarrow> real option" where
  "spec_zone_value z =
     (if \<not> prefix ''thermal_zone'' (entry z) then None
      else case temp_file z of
             Holds (Some raw) \<Rightarrow>
               (let value = (if \<bar>raw\<bar> > 1000 then raw / 1000 else raw)
                in if value < -20 \<or> 150 < value then None
                   else (case type_file z of
                           Holds label \<Rightarrow> if cpu_related label then Some value else None
                         | _ \<Rightarrow> Some value))
           | _ \<Rightarrow> None)"

definition spec_thermal_zone_fallback :: "zone list \<Rightarrow> real option" where
  "spec_thermal_zone_fallback zones =
     (let values = List.map_filter spec_zone_value zones
      in if values = [] then None else Some (mean values))"

section \<open>The CPU temperature chain and the GPU\<close>

text \<open>
  The outside world at one tick: what each external call returns or raises. The
  counters of psutil are numbers; the load and the temperature of a GPU are floats and
  may be \<^verbatim>\<open>nan\<close>.
  \<^verbatim>\<open>psutil.sensors_temperatures\<close> gives a dictionary from group name to entries; of an
  entry only \<^verbatim>\<open>getattr(entry, "current", None)\<close> is read.
\<close>

record gpu =
  load :: pyfloat
  temperature :: "pyfloat option"

record env =
  now :: string
  cpu_percent :: real
  virtual_memory_percent :: real
  getGPUs :: "exn + gpu list"
  sensors_temperatures :: "exn + (string \<times> real option list) list"
  run_sensors :: "exn + completed"
  thermal :: thermal_root

text \<open>
  The external calls of the temperature chain. A call is made by appending it to the log
  of calls made so far and taking the answer of the outside world.
\<close>

datatype call = SensorsTemperatures | SubprocessRun | ThermalIsdir

definition psutil_sensors_temperatures ::
  "env \<Rightarrow> call list \<Rightarrow> call list \<times> (exn + (string \<times> real option list) list)" where
  "psutil_sensors_temperatures e calls = (calls @ [SensorsTemperatures], sensors_temperatures e)"

definition subprocess_run :: "env \<Rightarrow> call list \<Rightarrow> call list \<times> (exn + completed)" where
  "subprocess_run e calls = (calls @ [SubprocessRun], run_sensors e)"

definition os_path_isdir :: "env \<Rightarrow> call list \<Rightarrow> call list \<times> thermal_root" where
  "os_path_isdir e calls = (calls @ [ThermalIsdir], thermal e)"

text \<open>The two fallbacks as the chain calls them: the external call, then the body.\<close>

definition call_lm_sensors :: "env \<Rightarrow> call list \<Rightarrow> call list \<times> (exn + real option)" where
  "call_lm_sensors e calls =
     (case subprocess_run e calls of
        (calls', run) \<Rightarrow> (calls', read_cpu_temp_from_lm_sensors run))"

definition call_sysfs :: "env \<Rightarrow> call list \<Rightarrow> call list \<times> (exn + real option)" where
  "call_sysfs e calls =
     (case os_path_isdir e calls of
        (calls', zone_root) \<Rightarrow> (calls', read_cpu_temp_from_sysfs zone_root))"

text \<open>
  \<^verbatim>\<open>read_cpu_temperature\<close>, returning the calls it made along with its result. Every
  exception of \<^verbatim>\<open>psutil.sensors_temperatures\<close> is caught and replaced by \<^verbatim>\<open>{}\<close>.
\<close>

definition sensor_values :: "(string \<times> real option list) list \<Rightarrow> real list" where
  "sensor_values temps = concat (map (\<lambda>(group, entries). List.map_filter id entries) temps)"

definition read_cpu_temperature :: "env \<Rightarrow> call list \<times> (exn + real option)" where
  "read_cpu_temperature e =
     (case psutil_sensors_temperatures e [] of (calls1, answer) \<Rightarrow>
        (let temps = (case answer of Inl x \<Rightarrow> [] | Inr d \<Rightarrow> d);
             values = sensor_values temps
         in if values \<noteq> [] then (calls1, Inr (Some (mean values)))
            else
              (case call_lm_sensors e calls1 of
                 (calls2, Inl x) \<Rightarrow> (calls2, Inl x)
               | (calls2, Inr (Some fallback_value)) \<Rightarrow> (calls2, Inr (Some fallback_value))
               | (calls2, Inr None) \<Rightarrow> call_sysfs e calls2)))"

text \<open>
  \<^verbatim>\<open>read_gpu_metrics\<close>: the result of \<^verbatim>\<open>GPUtil.getGPUs()\<close> is the argument; the
  function itself may in principle raise, so its result is \<open>exn + _\<close>.
\<close>

definition read_gpu_metrics ::
  "exn + gpu list \<Rightarrow> exn + (pyfloat option \<times> pyfloat option)" where
  "read_gpu_metrics got =
     (case got of
        Inl x \<Rightarrow> Inr (None, None)
      | Inr gpus \<Rightarrow>
          (case gpus of
             [] \<Rightarrow> Inr (None, None)
           | g # rest \<Rightarrow> Inr (Some (fmul (load g) (Num 100)), temperature g)))"

section \<open>MetricsRepository: the SQLite store\<close>

text \<open>
  The store holds one table, \<^verbatim>\<open>measurements\<close>. A table is its columns, in order, its
  rows (one value per column) and the counter SQLite keeps for an
  \<^verbatim>\<open>AUTOINCREMENT\<close> key. A text or a number is stored as it is given (the columns
  the monitor writes are declared \<^verbatim>\<open>TEXT\<close> and \<^verbatim>\<open>REAL\<close>).
\<close>

datatype sql_value = Null | Integer int | Real real | Text string

record column =
  col_name :: string
  col_type :: string
  notnull :: bool
  autoincrement :: bool

record table =
  columns :: "column list"
  rows :: "sql_value list list"
  seq :: int

text \<open>
  A connection of Python's \<^verbatim>\<open>sqlite3\<close>: the committed content of the file, the content
  inside the open transaction if there is one, and whether the file can be written
  (on a read-only file, or while another process holds the lock, every writing
  statement raises \<^verbatim>\<open>OperationalError\<close>). A schema statement that raises leaves the
  connection as it was; for a data statement see \<open>exec_insert\<close>.
\<close>

record connection =
  durable :: "table option"
  txn :: "table option option"
  writable :: bool

definition view :: "connection \<Rightarrow> table option" where
  "view c = (case txn c of Some d \<Rightarrow> d | None \<Rightarrow> durable c)"

text \<open>
  A schema statement joins the open transaction; without one it takes effect at once
  (SQLite's autocommit). A data statement opens a transaction.
\<close>

definition write_ddl :: "connection \<Rightarrow> table option \<Rightarrow> connection" where
  "write_ddl c d = (case txn c of Some old \<Rightarrow> c \<lparr> txn := Some d \<rparr> | None \<Rightarrow> c \<lparr> durable := d \<rparr>)"

definition write_dml :: "connection \<Rightarrow> table option \<Rightarrow> connection" where
  "write_dml c d = c \<lparr> txn := Some d \<rparr>"

definition commit :: "connection \<Rightarrow> exn + connection" where
  "commit c =
     (case txn c of
        None \<Rightarrow> Inr c
      | Some d \<Rightarrow> if writable c then Inr (c \<lparr> durable := d, txn := None \<rparr>)
                  else Inl OperationalError)"

text \<open>SQLite compares identifiers without regard to the case of ASCII letters.\<close>

definition sql_lower :: "char \<Rightarrow> char" where
  "sql_lower ch =
     (let n = (of_char ch :: nat) in if 65 \<le> n \<and> n \<le> 90 then char_of (n + 32) else ch)"

definition sql_name_eq :: "string \<Rightarrow> string \<Rightarrow> bool" where
  "sql_name_eq a b = (map sql_lower a = map sql_lower b)"

text \<open>The table of the \<^verbatim>\<open>CREATE TABLE\<close> statement in \<^verbatim>\<open>create_schema\<close>.\<close>

definition measurements_new :: table where
  "measurements_new =
     \<lparr> columns =
         [\<lparr> col_name = ''id'', col_type = ''INTEGER'', notnull = False, autoincrement = True \<rparr>,
          \<lparr> col_name = ''captured_at'', col_type = ''TEXT'', notnull = True, autoincrement = False \<rparr>,
          \<lparr> col_name = ''cpu_percent'', col_type = ''REAL'', notnull = True, autoincrement = False \<rparr>,
          \<lparr> col_name = ''ram_percent'', col_type = ''REAL'', notnull = True, autoincrement = False \<rparr>,
          \<lparr> col_name = ''gpu_load_percent'', col_type = ''REAL'', notnull = False, autoincrement = False \<rparr>,
          \<lparr> col_name = ''gpu_temp_c'', col_type = ''REAL'', notnull = False, autoincrement = False \<rparr>,
          \<lparr> col_name = ''cpu_temp_c'', col_type = ''REAL'', notnull = False, autoincrement = False \<rparr>],
       rows = [],
       seq = 0 \<rparr>"

text \<open>\<^verbatim>\<open>CREATE TABLE IF NOT EXISTS measurements (...)\<close>\<close>

definition exec_create_table :: "connection \<Rightarrow> exn + connection" where
  "exec_create_table c =
     (case view c of
        Some t \<Rightarrow> Inr c
      | None \<Rightarrow> if writable c then Inr (write_ddl c (Some measurements_new))
                else Inl OperationalError)"

text \<open>\<^verbatim>\<open>PRAGMA table_info(measurements)\<close>: one row per column; no row without the table.\<close>

definition table_info :: "connection \<Rightarrow> column list" where
  "table_info c = (case view c of None \<Rightarrow> [] | Some t \<Rightarrow> columns t)"

text \<open>
  \<^verbatim>\<open>ALTER TABLE measurements ADD COLUMN name type\<close>: raises without the table and
  when a column of that name (up to case) exists; otherwise the column is appended and
  every existing row reads \<^verbatim>\<open>NULL\<close> in it.
\<close>

definition exec_add_column :: "connection \<Rightarrow> string \<Rightarrow> string \<Rightarrow> exn + connection" where
  "exec_add_column c name ty =
     (case view c of
        None \<Rightarrow> Inl OperationalError
      | Some t \<Rightarrow>
          if list_ex (\<lambda>k. sql_name_eq (col_name k) name) (columns t) then Inl OperationalError
          else if \<not> writable c then Inl OperationalError
          else Inr (write_ddl c
                 (Some (t \<lparr> columns := columns t @
                              [\<lparr> col_name = name, col_type = ty, notnull = False,
                                 autoincrement = False \<rparr>],
                            rows := map (\<lambda>r. r @ [Null]) (rows t) \<rparr>))))"

text \<open>\<^verbatim>\<open>_ensure_column\<close>: the test \<^verbatim>\<open>column not in existing\<close> compares exactly.\<close>

definition ensure_column :: "connection \<Rightarrow> string \<Rightarrow> string \<Rightarrow> exn + connection" where
  "ensure_column c name ty =
     (let existing = set (map col_name (table_info c))
      in if name \<notin> existing then exec_add_column c name ty else Inr c)"

text \<open>\<^verbatim>\<open>create_schema\<close>\<close>

definition create_schema :: "connection \<Rightarrow> exn + connection" where
  "create_schema c =
     (case exec_create_table c of Inl x \<Rightarrow> Inl x | Inr c1 \<Rightarrow>
      case ensure_column c1 ''gpu_load_percent'' ''REAL'' of Inl x \<Rightarrow> Inl x | Inr c2 \<Rightarrow>
      case ensure_column c2 ''gpu_temp_c'' ''REAL'' of Inl x \<Rightarrow> Inl x | Inr c3 \<Rightarrow>
      case ensure_column c3 ''cpu_temp_c'' ''REAL'' of Inl x \<Rightarrow> Inl x | Inr c4 \<Rightarrow>
      commit c4)"

text \<open>
  \<^verbatim>\<open>MetricsRepository.__init__\<close> on a file with the given content: connect, set the
  two pragmas, create the schema. The pragmas do not touch the table, but
  \<^verbatim>\<open>PRAGMA journal_mode=WAL\<close> writes to the file and raises when the file cannot be
  written.
\<close>

definition MetricsRepository_init :: "table option \<Rightarrow> bool \<Rightarrow> exn + connection" where
  "MetricsRepository_init content w =
     (if \<not> w then Inl OperationalError
      else create_schema \<lparr> durable = content, txn = None, writable = w \<rparr>)"

text \<open>
  \<^verbatim>\<open>INSERT INTO measurements (names) VALUES (values)\<close> through
  \<^verbatim>\<open>connection.execute\<close>. The statement is compiled first: without the table, or when
  a name is not a column, \<^verbatim>\<open>OperationalError\<close> is raised and nothing else happens. Then
  Python's \<^verbatim>\<open>sqlite3\<close> begins a transaction if none is open, and the statement runs: it
  raises when the file cannot be written and when a \<^verbatim>\<open>NOT NULL\<close> column would hold
  \<^verbatim>\<open>NULL\<close>, and then the transaction stays open with nothing changed. A column that
  is not named takes the next key when it is the \<^verbatim>\<open>AUTOINCREMENT\<close> key and \<^verbatim>\<open>NULL\<close>
  otherwise. The result is the connection after the call and the exception, if any.
\<close>

definition assigned :: "(string \<times> sql_value) list \<Rightarrow> string \<Rightarrow> sql_value option" where
  "assigned asg name = map_option snd (find (\<lambda>p. sql_name_eq (fst p) name) asg)"

definition new_row :: "table \<Rightarrow> (string \<times> sql_value) list \<Rightarrow> sql_value list" where
  "new_row t asg =
     map (\<lambda>k. case assigned asg (col_name k) of
                 Some v \<Rightarrow> v
               | None \<Rightarrow> if autoincrement k then Integer (seq t + 1) else Null)
         (columns t)"

definition begin_implicit :: "connection \<Rightarrow> connection" where
  "begin_implicit c = (case txn c of Some d \<Rightarrow> c | None \<Rightarrow> c \<lparr> txn := Some (durable c) \<rparr>)"

definition exec_insert ::
  "connection \<Rightarrow> (string \<times> sql_value) list \<Rightarrow> connection \<times> exn option" where
  "exec_insert c asg =
     (case view c of
        None \<Rightarrow> (c, Some OperationalError)
      | Some t \<Rightarrow>
          if list_ex (\<lambda>p. \<not> list_ex (\<lambda>k. sql_name_eq (col_name k) (fst p)) (columns t)) asg
          then (c, Some OperationalError)
          else if \<not> writable c then (begin_implicit c, Some OperationalError)
          else if list_ex (\<lambda>(k, v). notnull k \<and> v = Null) (zip (columns t) (new_row t asg))
          then (begin_implicit c, Some IntegrityError)
          else (write_dml c (Some (t \<lparr> rows := rows t @ [new_row t asg], seq := seq t + 1 \<rparr>)),
                None))"

text \<open>
  A Python \<^verbatim>\<open>float | None\<close> as a bound parameter: \<^verbatim>\<open>None\<close> is bound as
  \<^verbatim>\<open>NULL\<close>, and SQLite stores the float \<^verbatim>\<open>nan\<close> as \<^verbatim>\<open>NULL\<close> too.
\<close>

fun sql_of_float :: "pyfloat option \<Rightarrow> sql_value" where
  "sql_of_float None = Null"
| "sql_of_float (Some NaN) = Null"
| "sql_of_float (Some (Num v)) = Real v"

text \<open>
  What a fresh read hands back to Python for a \<^verbatim>\<open>REAL\<close> column: \<^verbatim>\<open>None\<close> for
  \<^verbatim>\<open>NULL\<close>, the number otherwise.
\<close>

fun float_of_sql :: "sql_value \<Rightarrow> pyfloat option" where
  "float_of_sql (Real v) = Some (Num v)"
| "float_of_sql v = None"

text \<open>\<^verbatim>\<open>insert_measurement\<close>: the \<^verbatim>\<open>INSERT\<close>, then \<^verbatim>\<open>commit()\<close>.\<close>

definition insert_measurement ::
  "connection \<Rightarrow> string \<Rightarrow> pyfloat \<Rightarrow> pyfloat \<Rightarrow> pyfloat option \<Rightarrow> pyfloat option
     \<Rightarrow> pyfloat option \<Rightarrow> connection \<times> exn option" where
  "insert_measurement c captured_at cpu ram gpu_load_percent gpu_temp_c cpu_temp_c =
     (case exec_insert c
             [(''captured_at'', Text captured_at),
              (''cpu_percent'', sql_of_float (Some cpu)),
              (''ram_percent'', sql_of_float (Some ram)),
              (''gpu_load_percent'', sql_of_float gpu_load_percent),
              (''gpu_temp_c'', sql_of_float gpu_temp_c),
              (''cpu_temp_c'', sql_of_float cpu_temp_c)] of
        (c1, Some x) \<Rightarrow> (c1, Some x)
      | (c1, None) \<Rightarrow>
          (case commit c1 of Inl x \<Rightarrow> (c1, Some x) | Inr c2 \<Rightarrow> (c2, None)))"

text \<open>
  Reading the store afresh: a new connection sees the committed content. The value of a
  row under a column name.
\<close>

definition fresh_read :: "connection \<Rightarrow> table option" where
  "fresh_read c = durable c"

definition field :: "table \<Rightarrow> sql_value list \<Rightarrow> string \<Rightarrow> sql_value option" where
  "field t r name =
     map_option snd (find (\<lambda>p. sql_name_eq (col_name (fst p)) name) (zip (columns t) r))"

text \<open>
  Vocabulary for the store: a table has a column of a given name; the columns
  \<^verbatim>\<open>create_schema\<close> ensures; the names \<^verbatim>\<open>insert_measurement\<close> writes.
\<close>

definition has_column :: "table \<Rightarrow> string \<Rightarrow> bool" where
  "has_column t name = list_ex (\<lambda>k. sql_name_eq (col_name k) name) (columns t)"

definition optional_columns :: "string list" where
  "optional_columns = [''gpu_load_percent'', ''gpu_temp_c'', ''cpu_temp_c'']"

definition required_columns :: "string list" where
  "required_columns = [''captured_at'', ''cpu_percent'', ''ram_percent'']"

text \<open>
  A well-formed table, as SQLite keeps it: no two columns share a name up to case, and
  every row has one value per column.
\<close>

definition wf_table :: "table \<Rightarrow> bool" where
  "wf_table t =
     (distinct (map (\<lambda>k. map sql_lower (col_name k)) (columns t))
      \<and> list_all (\<lambda>r. length r = length (columns t)) (rows t))"

text \<open>
  No column is spelled like an optional column in another case. (Such a column passes
  the exact test of \<^verbatim>\<open>_ensure_column\<close> and makes \<^verbatim>\<open>ALTER TABLE\<close> raise.)
\<close>

definition no_case_clash :: "table \<Rightarrow> bool" where
  "no_case_clash t =
     list_all (\<lambda>k. list_all (\<lambda>n. sql_name_eq (col_name k) n \<longrightarrow> col_name k = n)
                             optional_columns)
              (columns t)"

text \<open>
  The table an additive migration leaves: the optional columns that are missing, in the
  order \<^verbatim>\<open>create_schema\<close> names them, appended as nullable \<^verbatim>\<open>REAL\<close> columns, and
  every row extended by \<^verbatim>\<open>NULL\<close> in each of them.
\<close>

definition missing_columns :: "table \<Rightarrow> string list" where
  "missing_columns t = filter (\<lambda>n. n \<notin> set (map col_name (columns t))) optional_columns"

definition real_column :: "string \<Rightarrow> column" where
  "real_column n = \<lparr> col_name = n, col_type = ''REAL'', notnull = False, autoincrement = False \<rparr>"

definition migrated :: "table \<Rightarrow> table" where
  "migrated t =
     t \<lparr> columns := columns t @ map real_column (missing_columns t),
         rows := map (\<lambda>r. r @ replicate (length (missing_columns t)) Null) (rows t) \<rparr>"

text \<open>One step of the migration: the column is appended when no column has exactly its name.\<close>

definition add_if_missing :: "string \<Rightarrow> table \<Rightarrow> table" where
  "add_if_missing n t =
     (if n \<in> set (map col_name (columns t)) then t
      else t \<lparr> columns := columns t @ [real_column n],
               rows := map (\<lambda>r. r @ [Null]) (rows t) \<rparr>)"

text \<open>
  A table \<^verbatim>\<open>insert_measurement\<close> can write: it has the six columns, and only the three
  required ones are declared \<^verbatim>\<open>NOT NULL\<close>.
\<close>

definition insert_ready :: "table \<Rightarrow> bool" where
  "insert_ready t =
     (list_all (has_column t) (required_columns @ optional_columns)
      \<and> list_all (\<lambda>k. notnull k \<longrightarrow> list_ex (sql_name_eq (col_name k)) required_columns)
                  (columns t))"

text \<open>
  A store written by the other monitor script of the file, whose table has no column
  \<^verbatim>\<open>cpu_temp_c\<close>, holding two rows.
\<close>

definition measurements_old :: table where
  "measurements_old =
     \<lparr> columns =
         [\<lparr> col_name = ''id'', col_type = ''INTEGER'', notnull = False, autoincrement = True \<rparr>,
          \<lparr> col_name = ''captured_at'', col_type = ''TEXT'', notnull = True, autoincrement = False \<rparr>,
          \<lparr> col_name = ''cpu_percent'', col_type = ''REAL'', notnull = True, autoincrement = False \<rparr>,
          \<lparr> col_name = ''ram_percent'', col_type = ''REAL'', notnull = True, autoincrement = False \<rparr>,
          \<lparr> col_name = ''gpu_load_percent'', col_type = ''REAL'', notnull = False, autoincrement = False \<rparr>,
          \<lparr> col_name = ''gpu_temp_c'', col_type = ''REAL'', notnull = False, autoincrement = False \<rparr>],
       rows = [[Integer 1, Text ''2023-12-31 23:59:59'', Real 7, Real 33, Null, Null],
               [Integer 2, Text ''2024-01-01 00:00:00'', Real 9, Real 34, Real 61, Real 58]],
       seq = 2 \<rparr>"

definition repo_old :: connection where
  "repo_old = \<lparr> durable = Some measurements_old, txn = None, writable = True \<rparr>"

section \<open>PcMonitorApp: one tick\<close>

text \<open>UTF-8 bytes of the literal \<^verbatim>\<open>Tekushchaya zagruzka (current load)\<close>.\<close>

definition txt_current_load :: string where
  "txt_current_load =
     [CHR 0xD0, CHR 0xA2, CHR 0xD0, CHR 0xB5, CHR 0xD0, CHR 0xBA, CHR 0xD1, CHR 0x83,
     CHR 0xD1, CHR 0x89, CHR 0xD0, CHR 0xB0, CHR 0xD1, CHR 0x8F] @ '' '' @ [CHR 0xD0,
     CHR 0xB7, CHR 0xD0, CHR 0xB0, CHR 0xD0, CHR 0xB3, CHR 0xD1, CHR 0x80, CHR 0xD1,
     CHR 0x83, CHR 0xD0, CHR 0xB7, CHR 0xD0, CHR 0xBA, CHR 0xD0, CHR 0xB0] @ '' ''"

text \<open>UTF-8 bytes of the literal \<^verbatim>\<open>Tekushchaya temperatura (current temperature)\<close>.\<close>

definition txt_current_temperature :: string where
  "txt_current_temperature =
     [CHR 0xD0, CHR 0xA2, CHR 0xD0, CHR 0xB5, CHR 0xD0, CHR 0xBA, CHR 0xD1, CHR 0x83,
     CHR 0xD1, CHR 0x89, CHR 0xD0, CHR 0xB0, CHR 0xD1, CHR 0x8F] @ '' '' @ [CHR 0xD1,
     CHR 0x82, CHR 0xD0, CHR 0xB5, CHR 0xD0, CHR 0xBC, CHR 0xD0, CHR 0xBF, CHR 0xD0,
     CHR 0xB5, CHR 0xD1, CHR 0x80, CHR 0xD0, CHR 0xB0, CHR 0xD1, CHR 0x82, CHR 0xD1,
     CHR 0x83, CHR 0xD1, CHR 0x80, CHR 0xD0, CHR 0xB0] @ '' ''"

text \<open>UTF-8 bytes of the literal \<^verbatim>\<open>videokarta ne obnaruzhena (graphics card not found)\<close>.\<close>

definition txt_gpu_not_found :: string where
  "txt_gpu_not_found =
     [CHR 0xD0, CHR 0xB2, CHR 0xD0, CHR 0xB8, CHR 0xD0, CHR 0xB4, CHR 0xD0, CHR 0xB5,
     CHR 0xD0, CHR 0xBE, CHR 0xD0, CHR 0xBA, CHR 0xD0, CHR 0xB0, CHR 0xD1, CHR 0x80,
     CHR 0xD1, CHR 0x82, CHR 0xD0, CHR 0xB0] @ '' '' @ [CHR 0xD0, CHR 0xBD, CHR 0xD0,
     CHR 0xB5] @ '' '' @ [CHR 0xD0, CHR 0xBE, CHR 0xD0, CHR 0xB1, CHR 0xD0, CHR 0xBD,
     CHR 0xD0, CHR 0xB0, CHR 0xD1, CHR 0x80, CHR 0xD1, CHR 0x83, CHR 0xD0, CHR 0xB6,
     CHR 0xD0, CHR 0xB5, CHR 0xD0, CHR 0xBD, CHR 0xD0, CHR 0xB0]"

text \<open>UTF-8 bytes of the literal \<^verbatim>\<open>datchik nedostupen (sensor unavailable)\<close>.\<close>

definition txt_sensor_unavailable :: string where
  "txt_sensor_unavailable =
     [CHR 0xD0, CHR 0xB4, CHR 0xD0, CHR 0xB0, CHR 0xD1, CHR 0x82, CHR 0xD1, CHR 0x87,
     CHR 0xD0, CHR 0xB8, CHR 0xD0, CHR 0xBA] @ '' '' @ [CHR 0xD0, CHR 0xBD, CHR 0xD0,
     CHR 0xB5, CHR 0xD0, CHR 0xB4, CHR 0xD0, CHR 0xBE, CHR 0xD1, CHR 0x81, CHR 0xD1,
     CHR 0x82, CHR 0xD1, CHR 0x83, CHR 0xD0, CHR 0xBF, CHR 0xD0, CHR 0xB5, CHR 0xD0,
     CHR 0xBD]"

text \<open>UTF-8 bytes of the literal \<^verbatim>\<open>the degree sign followed by C\<close>.\<close>

definition txt_degree_C :: string where
  "txt_degree_C =
     [CHR 0xC2, CHR 0xB0] @ ''C''"

text \<open>
  The state of the application: the five charts, the repository, the timers registered
  with \<^verbatim>\<open>root.after\<close> (their delays in milliseconds) and the exceptions Tk has
  reported for timer callbacks.
\<close>

record app =
  cpu_chart :: chart
  ram_chart :: chart
  gpu_load_chart :: chart
  gpu_temp_chart :: chart
  cpu_temp_chart :: chart
  repo :: connection
  after_queue :: "nat list"
  reported :: "exn list"

text \<open>
  \<^verbatim>\<open>update_all_metrics\<close>. The result is the state when the method ends and the
  exception that ended it, if any: nothing in the method catches an exception, so what
  was done before the raise stays done and what comes after it is not done.
\<close>

definition update_all_metrics :: "env \<Rightarrow> app \<Rightarrow> app \<times> exn option" where
  "update_all_metrics e a =
     (let captured_at = now e;
          cpu = Num (cpu_percent e);
          ram = Num (virtual_memory_percent e)
      in case read_gpu_metrics (getGPUs e) of
           Inl x \<Rightarrow> (a, Some x)
         | Inr (gpu_load_percent, gpu_temp_c) \<Rightarrow>
      (case snd (read_cpu_temperature e) of
           Inl x \<Rightarrow> (a, Some x)
         | Inr cpu_temp \<Rightarrow>
      (let cpu_temp_c = map_option Num cpu_temp;
           a1 = a \<lparr> cpu_chart := update_value (cpu_chart a) cpu
                      (Some [Lit (txt_current_load @ ''CPU: ''), Fixed1 cpu, Lit ''%'']) \<rparr>;
           a2 = a1 \<lparr> ram_chart := update_value (ram_chart a1) ram
                      (Some [Lit (txt_current_load @ ''RAM: ''), Fixed1 ram, Lit ''%'']) \<rparr>;
           a3 = (case gpu_load_percent of
                   None \<Rightarrow> a2 \<lparr> gpu_load_chart := update_value (gpu_load_chart a2) (Num 0)
                      (Some [Lit (''GPU load: N/A ('' @ txt_gpu_not_found @ '')'')]) \<rparr>
                 | Some v \<Rightarrow> a2 \<lparr> gpu_load_chart := update_value (gpu_load_chart a2) v
                      (Some [Lit (txt_current_load @ ''GPU: ''), Fixed1 v, Lit ''%'']) \<rparr>);
           a4 = (case gpu_temp_c of
                   None \<Rightarrow> a3 \<lparr> gpu_temp_chart := update_value (gpu_temp_chart a3) (Num 0)
                      (Some [Lit ''GPU temp: N/A'']) \<rparr>
                 | Some v \<Rightarrow> a3 \<lparr> gpu_temp_chart := update_value (gpu_temp_chart a3) v
                      (Some [Lit (txt_current_temperature @ ''GPU: ''), Fixed1 v,
                             Lit txt_degree_C]) \<rparr>);
           a5 = (case cpu_temp_c of
                   None \<Rightarrow> a4 \<lparr> cpu_temp_chart := update_value (cpu_temp_chart a4) (Num 0)
                      (Some [Lit (''CPU temp: N/A ('' @ txt_sensor_unavailable @ '')'')]) \<rparr>
                 | Some v \<Rightarrow> a4 \<lparr> cpu_temp_chart := update_value (cpu_temp_chart a4) v
                      (Some [Lit (txt_current_temperature @ ''CPU: ''), Fixed1 v,
                             Lit txt_degree_C]) \<rparr>)
       in case insert_measurement (repo a5) captured_at cpu ram
                 gpu_load_percent gpu_temp_c cpu_temp_c of
            (r, Some x) \<Rightarrow> (a5 \<lparr> repo := r \<rparr>, Some x)
          | (r, None) \<Rightarrow> (a5 \<lparr> repo := r, after_queue := after_queue a5 @ [1000] \<rparr>, None))))"

text \<open>
  The Tk main loop running the next timer: without a registered timer nothing runs.
  An exception that leaves the callback is handed to Tk's
  \<^verbatim>\<open>report_callback_exception\<close>, and the main loop goes on.
\<close>

definition run_timer :: "env \<Rightarrow> app \<Rightarrow> app" where
  "run_timer e a =
     (case after_queue a of
        [] \<Rightarrow> a
      | delay # later \<Rightarrow>
          (case update_all_metrics e (a \<lparr> after_queue := later \<rparr>) of
             (a', None) \<Rightarrow> a'
           | (a', Some x) \<Rightarrow> a' \<lparr> reported := reported a' @ [x] \<rparr>))"

text \<open>
  \<^verbatim>\<open>PcMonitorApp.__init__\<close> on a store file with the given content: the repository,
  the five charts with the default capacity 90, and the first tick, called directly.
\<close>

definition PcMonitorApp_init :: "table option \<Rightarrow> bool \<Rightarrow> env \<Rightarrow> exn + app" where
  "PcMonitorApp_init content w e =
     (case MetricsRepository_init content w of Inl x \<Rightarrow> Inl x | Inr r \<Rightarrow>
      case MetricChart_init 90 ''%'' of Inl x \<Rightarrow> Inl x | Inr c1 \<Rightarrow>
      case MetricChart_init 90 ''%'' of Inl x \<Rightarrow> Inl x | Inr c2 \<Rightarrow>
      case MetricChart_init 90 ''%'' of Inl x \<Rightarrow> Inl x | Inr c3 \<Rightarrow>
      case MetricChart_init 90 txt_degree_C of Inl x \<Rightarrow> Inl x | Inr c4 \<Rightarrow>
      case MetricChart_init 90 txt_degree_C of Inl x \<Rightarrow> Inl x | Inr c5 \<Rightarrow>
      (case update_all_metrics e
              \<lparr> cpu_chart = c1, ram_chart = c2, gpu_load_chart = c3, gpu_temp_chart = c4,
                cpu_temp_chart = c5, repo = r, after_queue = [], reported = [] \<rparr> of
         (a, None) \<Rightarrow> Inr a
       | (a, Some x) \<Rightarrow> Inl x))"

section \<open>Concrete inputs\<close>

text \<open>
  A quiet machine: no GPU library, no sensor reading, no \<^verbatim>\<open>sensors\<close> tool and no
  thermal directory; CPU at 12.5 percent and memory at 40 percent.
\<close>

definition env_bare :: env where
  "env_bare =
     \<lparr> now = ''2024-01-01 12:00:00'',
       cpu_percent = 12.5,
       virtual_memory_percent = 40,
       getGPUs = Inl OtherException,
       sensors_temperatures = Inl OtherException,
       run_sensors = Inl FileNotFoundError,
       thermal = NotADirectory \<rparr>"

text \<open>The same machine with an idle GPU that measures a load of 0 and 0 degrees.\<close>

definition env_idle :: env where
  "env_idle = env_bare \<lparr> getGPUs := Inr [\<lparr> load = Num 0, temperature = Some (Num 0) \<rparr>] \<rparr>"

text \<open>A machine whose sensor API reports two readings in one group and none in another.\<close>

definition env_sensors :: env where
  "env_sensors =
     env_bare \<lparr> sensors_temperatures :=
                  Inr [(''coretemp'', [Some 40, None, Some 50]), (''acpitz'', [])] \<rparr>"

text \<open>A package zone that reports five degrees below zero, in millidegrees.\<close>

definition zone_frost :: zone where
  "zone_frost =
     \<lparr> entry = ''thermal_zone0'',
       temp_file = Holds (Some (-5000)),
       type_file = Holds ''x86_pkg_temp'' \<rparr>"

text \<open>A package zone at 45000 millidegrees and a zone without a label at 45 degrees.\<close>

definition zone_milli :: zone where
  "zone_milli =
     \<lparr> entry = ''thermal_zone1'',
       temp_file = Holds (Some 45000),
       type_file = Holds ''x86_pkg_temp'' \<rparr>"

definition zone_plain :: zone where
  "zone_plain =
     \<lparr> entry = ''thermal_zone2'',
       temp_file = Holds (Some 45),
       type_file = NoFile \<rparr>"

text \<open>
  A chart as \<^verbatim>\<open>MetricChart.__init__\<close> leaves it with the default capacity 90, and the
  application over a given repository before its first tick. A store that holds the
  current table and can be written, and one that cannot.
\<close>

definition chart0 :: "string \<Rightarrow> chart" where
  "chart0 u =
     \<lparr> max_points = 90, unit_text = u, history = replicate 90 (Num 0),
       value_var = [Lit (txt_current_value @ ''0.0''), Lit u] \<rparr>"

definition app0 :: "connection \<Rightarrow> app" where
  "app0 r =
     \<lparr> cpu_chart = chart0 ''%'', ram_chart = chart0 ''%'', gpu_load_chart = chart0 ''%'',
       gpu_temp_chart = chart0 txt_degree_C, cpu_temp_chart = chart0 txt_degree_C,
       repo = r, after_queue = [], reported = [] \<rparr>"

text \<open>
  A chart of capacity 90 after one \<^verbatim>\<open>update_value(7)\<close> with the default text, and the
  application over a given repository with five such charts.
\<close>

definition chart1 :: "string \<Rightarrow> chart" where
  "chart1 u =
     \<lparr> max_points = 90, unit_text = u, history = replicate 89 (Num 0) @ [Num 7],
       value_var = [Lit txt_current_value, Fixed1 (Num 7), Lit u] \<rparr>"

definition app1 :: "connection \<Rightarrow> app" where
  "app1 r =
     \<lparr> cpu_chart = chart1 ''%'', ram_chart = chart1 ''%'', gpu_load_chart = chart1 ''%'',
       gpu_temp_chart = chart1 txt_degree_C, cpu_temp_chart = chart1 txt_degree_C,
       repo = r, after_queue = [], reported = [] \<rparr>"

definition repo_ready :: connection where
  "repo_ready = \<lparr> durable = Some measurements_new, txn = None, writable = True \<rparr>"

definition repo_stuck :: connection where
  "repo_stuck = \<lparr> durable = Some measurements_new, txn = None, writable = False \<rparr>"




text \<open>A display text shows a number when one of its pieces is a formatted float.\<close>

fun is_number :: "piece \<Rightarrow> bool" where
  "is_number (Fixed1 v) = True"
| "is_number (Lit s) = False"

text \<open>
  The application after the five \<^verbatim>\<open>update_value\<close> calls of a tick that read the GPU
  load \<open>gl\<close>, the GPU temperature \<open>gt\<close> and the CPU temperature \<open>ct\<close>.
\<close>

definition charts_after ::
  "env \<Rightarrow> pyfloat option \<Rightarrow> pyfloat option \<Rightarrow> pyfloat option \<Rightarrow> app \<Rightarrow> app" where
  "charts_after e gl gt ct a =
     a \<lparr> cpu_chart := update_value (cpu_chart a) (Num (cpu_percent e))
           (Some [Lit (txt_current_load @ ''CPU: ''), Fixed1 (Num (cpu_percent e)), Lit ''%'']),
         ram_chart := update_value (ram_chart a) (Num (virtual_memory_percent e))
           (Some [Lit (txt_current_load @ ''RAM: ''), Fixed1 (Num (virtual_memory_percent e)),
                  Lit ''%'']),
         gpu_load_chart := update_value (gpu_load_chart a) (case gl of None \<Rightarrow> Num 0 | Some v \<Rightarrow> v)
           (Some (case gl of
                    None \<Rightarrow> [Lit (''GPU load: N/A ('' @ txt_gpu_not_found @ '')'')]
                  | Some v \<Rightarrow> [Lit (txt_current_load @ ''GPU: ''), Fixed1 v, Lit ''%''])),
         gpu_temp_chart := update_value (gpu_temp_chart a) (case gt of None \<Rightarrow> Num 0 | Some v \<Rightarrow> v)
           (Some (case gt of
                    None \<Rightarrow> [Lit ''GPU temp: N/A'']
                  | Some v \<Rightarrow> [Lit (txt_current_temperature @ ''GPU: ''), Fixed1 v,
                               Lit txt_degree_C])),
         cpu_temp_chart := update_value (cpu_temp_chart a) (case ct of None \<Rightarrow> Num 0 | Some v \<Rightarrow> v)
           (Some (case ct of
                    None \<Rightarrow> [Lit (''CPU temp: N/A ('' @ txt_sensor_unavailable @ '')'')]
                  | Some v \<Rightarrow> [Lit (txt_current_temperature @ ''CPU: ''), Fixed1 v,
                               Lit txt_degree_C])) \<rparr>"


text \<open>
  Output of the tool holding \<^verbatim>\<open>+55.0\<close> and \<^verbatim>\<open>200.0\<close>, each followed by the degree
  sign and C; the text \<^verbatim>\<open>55.0\<close> followed by the degree sign alone; and the text
  \<^verbatim>\<open>55.0 C\<close> without a degree sign.
\<close>

definition text_two_readings :: "sym list" where
  "text_two_readings =
     [Plus, Digit 5, Digit 5, Dot, Digit 0, Degree, CapC, Space,
      Digit 2, Digit 0, Digit 0, Dot, Digit 0, Degree, CapC]"

definition text_degree_only :: "sym list" where
  "text_degree_only = [Digit 5, Digit 5, Dot, Digit 0, Degree]"

definition text_letter_only :: "sym list" where
  "text_letter_only = [Digit 5, Digit 5, Dot, Digit 0, Space, CapC]"


text \<open>A store whose table spells one optional column in capitals.\<close>

definition measurements_capitals :: table where
  "measurements_capitals =
     \<lparr> columns =
         [\<lparr> col_name = ''id'', col_type = ''INTEGER'', notnull = False, autoincrement = True \<rparr>,
          \<lparr> col_name = ''captured_at'', col_type = ''TEXT'', notnull = True, autoincrement = False \<rparr>,
          \<lparr> col_name = ''cpu_percent'', col_type = ''REAL'', notnull = True, autoincrement = False \<rparr>,
          \<lparr> col_name = ''ram_percent'', col_type = ''REAL'', notnull = True, autoincrement = False \<rparr>,
          \<lparr> col_name = ''GPU_LOAD_PERCENT'', col_type = ''REAL'', notnull = False, autoincrement = False \<rparr>],
       rows = [],
       seq = 0 \<rparr>"


text \<open>
  Machines on which a fallback decides: the \<^verbatim>\<open>sensors\<close> tool prints the two readings
  above; the tool is missing and one package zone reports 45000; the tool cannot be
  executed and \<^verbatim>\<open>subprocess.run\<close> raises \<^verbatim>\<open>PermissionError\<close>.
\<close>

definition env_tool :: env where
  "env_tool = env_bare \<lparr> run_sensors := Inr \<lparr> returncode = 0, stdout = text_two_readings \<rparr> \<rparr>"

definition env_zone :: env where
  "env_zone = env_bare \<lparr> thermal := Listing [zone_milli] \<rparr>"

definition env_perm :: env where
  "env_perm = env_bare \<lparr> run_sensors := Inl PermissionError \<rparr>"

text \<open>A GPU under half load whose driver reports no temperature: GPUtil gives \<^verbatim>\<open>nan\<close>.\<close>

definition env_nan :: env where
  "env_nan = env_bare \<lparr> getGPUs := Inr [\<lparr> load = Num 0.5, temperature = Some NaN \<rparr>] \<rparr>"

section \<open>Properties of the rolling history\<close>

lemma deque_append_full:
  "length d = n \<Longrightarrow> deque_append n d x = tl (d @ [x])"
  by (simp add: deque_append_def)

lemma deque_append_length:
  "length d = n \<Longrightarrow> length (deque_append n d x) = n"
  by (simp add: deque_append_def)

lemma deque_new_short:
  "length xs \<le> n \<Longrightarrow> deque_new n xs = xs"
proof -
  have "length (acc @ xs) \<le> n \<Longrightarrow> foldl (deque_append n) acc xs = acc @ xs" for acc
    by (induction xs arbitrary: acc) (simp_all add: deque_append_def)
  from this [of "[]"] show "length xs \<le> n \<Longrightarrow> deque_new n xs = xs"
    by (simp add: deque_new_def)
qed

lemma MetricChart_init_history:
  "MetricChart_init mp u = Inr c \<Longrightarrow>
     history c = replicate (max_points c) (Num 0) \<and> max_points c = nat mp"
  by (auto simp: MetricChart_init_def deque_new_short split: if_splits)

lemma history_update_value:
  "history (update_value c v t) = deque_append (max_points c) (history c) v"
  by (simp add: update_value_def)

lemma max_points_update_value: "max_points (update_value c v t) = max_points c"
  by (simp add: update_value_def)

lemma max_points_push_all: "max_points (push_all c vs) = max_points c"
  unfolding push_all_def
  by (induction vs arbitrary: c) (simp_all add: max_points_update_value)

lemma push_all_snoc:
  "push_all c (vs @ [v]) = update_value (push_all c vs) v None"
  by (simp add: push_all_def)

lemma history_push_all:
  assumes "length (history c) = max_points c"
  shows "history (push_all c vs) =
           drop (length vs) (history c @ vs)"
using assms proof (induction vs rule: rev_induct)
  case Nil
  then show ?case by (simp add: push_all_def)
next
  case (snoc v vs)
  let ?n = "max_points c"
  have len: "length (history (push_all c vs)) = ?n"
    using snoc by simp
  have "history (push_all c (vs @ [v])) =
          deque_append ?n (history (push_all c vs)) v"
    by (simp add: push_all_snoc history_update_value max_points_push_all)
  also have "\<dots> = tl (history (push_all c vs) @ [v])"
    using len by (rule deque_append_full)
  also have "\<dots> = tl (drop (length vs) (history c @ vs) @ [v])"
    using snoc by simp
  also have "\<dots> = tl (drop (length vs) (history c @ vs @ [v]))"
    using snoc.prems by simp
  also have "\<dots> = drop (length (vs @ [v])) (history c @ vs @ [v])"
    by (metis drop_Suc tl_drop length_append_singleton)
  finally show ?case by simp
qed

text \<open>
  C1. A chart built with capacity \<open>N\<close> and then pushed the values \<open>vs\<close> has a history of
  exactly \<open>N\<close> elements. While fewer than \<open>N\<close> values have been pushed the window is the
  zero padding followed by the pushed values; from \<open>N\<close> pushes on it is the last \<open>N\<close>
  pushed values in push order. Each further push drops exactly the oldest element of
  the window extended by the new value.
\<close>

theorem rolling_history_window:
  assumes "MetricChart_init mp u = Inr c0"
      and "c = push_all c0 vs"
      and "N = nat mp"
  shows "length (history c) = N
       \<and> (length vs \<le> N \<longrightarrow> history c = replicate (N - length vs) (Num 0) @ vs)
       \<and> (N \<le> length vs \<longrightarrow> history c = drop (length vs - N) vs)
       \<and> history (update_value c v t) = tl (history c @ [v])"
proof -
  have h0: "history c0 = replicate N (Num 0)" and m0: "max_points c0 = N"
    using MetricChart_init_history [OF assms(1)] assms(3) by simp_all
  have full: "length (history c0) = max_points c0"
    by (simp add: h0 m0)
  have win: "history c = drop (length vs) (replicate N (Num 0) @ vs)"
    using history_push_all [OF full, of vs] by (simp add: assms(2) h0)
  have len: "length (history c) = N"
    by (simp add: win)
  have pad: "history c = replicate (N - length vs) (Num 0) @ vs" if "length vs \<le> N"
    using that by (simp add: win)
  have last: "history c = drop (length vs - N) vs" if "N \<le> length vs"
    using that by (simp add: win)
  have "max_points c = N"
    by (simp add: assms(2) max_points_push_all m0)
  then have evict: "history (update_value c v t) = tl (history c @ [v])"
    using len by (simp add: history_update_value deque_append_full)
  from len pad last evict show ?thesis by blast
qed

theorem rolling_history_window_witness:
  "MetricChart_init 3 ''%'' = Inr (the_chart 3)
   \<and> history (push_all (the_chart 3) [Num 1, Num 2, Num 3, Num 4, Num 5]) = [Num 3, Num 4, Num 5]
   \<and> history (push_all (the_chart 3) [Num 7]) = [Num 0, Num 0, Num 7]
   \<and> history (update_value (push_all (the_chart 3) [Num 1, Num 2, Num 3, Num 4, Num 5]) (Num 6) None) = [Num 4, Num 5, Num 6]"
proof -
  have i: "MetricChart_init 3 ''%'' = Inr (the_chart 3)"
    by (simp add: MetricChart_init_def the_chart_def deque_new_def deque_append_def
        eval_nat_numeral)
  have a: "history (push_all (the_chart 3) [Num 1, Num 2, Num 3, Num 4, Num 5]) = [Num 3, Num 4, Num 5]"
    using rolling_history_window [OF i refl refl, of "[Num 1, Num 2, Num 3, Num 4, Num 5]"] by simp
  have b: "history (push_all (the_chart 3) [Num 7]) = [Num 0, Num 0, Num 7]"
    using rolling_history_window [OF i refl refl, of "[Num 7]"]
    by (simp add: eval_nat_numeral)
  have c: "history (update_value (push_all (the_chart 3) [Num 1, Num 2, Num 3, Num 4, Num 5]) (Num 6) None) = [Num 4, Num 5, Num 6]"
    using rolling_history_window [OF i refl refl, of "[Num 1, Num 2, Num 3, Num 4, Num 5]" "Num 6" None] by simp
  from i a b c show ?thesis by blast
qed

section \<open>Properties of the temperature chain and the GPU reader\<close>

lemma sensor_values_nonempty:
  "(g, es) \<in> set d \<Longrightarrow> Some v \<in> set es \<Longrightarrow> sensor_values d \<noteq> []"
  by (induction d) (auto simp: sensor_values_def map_filter_def filter_empty_conv)

lemma read_cpu_temperature_cases:
  "read_cpu_temperature e =
     (let values = sensor_values (case sensors_temperatures e of Inl x \<Rightarrow> [] | Inr d \<Rightarrow> d)
      in if values \<noteq> [] then ([SensorsTemperatures], Inr (Some (mean values)))
         else (case read_cpu_temp_from_lm_sensors (run_sensors e) of
                 Inl x \<Rightarrow> ([SensorsTemperatures, SubprocessRun], Inl x)
               | Inr (Some v) \<Rightarrow> ([SensorsTemperatures, SubprocessRun], Inr (Some v))
               | Inr None \<Rightarrow> ([SensorsTemperatures, SubprocessRun, ThermalIsdir],
                              read_cpu_temp_from_sysfs (thermal e))))"
  by (simp add: read_cpu_temperature_def psutil_sensors_temperatures_def call_lm_sensors_def
      subprocess_run_def call_sysfs_def os_path_isdir_def Let_def
      split: sum.splits option.splits)

lemma calls_in_order:
  "prefix (fst (read_cpu_temperature e)) [SensorsTemperatures, SubprocessRun, ThermalIsdir]"
  by (simp add: read_cpu_temperature_cases Let_def split: sum.splits option.splits)

text \<open>
  C2. When the sensor API returns a dictionary in which some group holds an entry with a
  current reading, \<open>read_cpu_temperature\<close> returns the mean of all current readings
  and its only external call is the sensor API: neither the \<^verbatim>\<open>sensors\<close> tool nor the
  thermal directory is touched. When the sensor API raises, the function behaves as it
  does for the empty dictionary. When the sensor API gives no reading, the tool is run
  next: a value it yields is the result and the thermal directory is not touched, an
  exception it does not catch leaves the function, and only when it yields no data is
  the thermal directory read, whose result is then the result. In every run the calls
  made are an initial part of the sequence sensor API, tool, thermal directory.
\<close>

theorem sensor_api_short_circuit:
  "(sensors_temperatures e = Inr d \<longrightarrow> (g, es) \<in> set d \<longrightarrow> Some v \<in> set es \<longrightarrow>
      read_cpu_temperature e = ([SensorsTemperatures], Inr (Some (mean (sensor_values d)))))
   \<and> (sensors_temperatures e = Inl x \<longrightarrow>
      read_cpu_temperature e = read_cpu_temperature (e \<lparr> sensors_temperatures := Inr [] \<rparr>))
   \<and> (sensor_values (case sensors_temperatures e of Inl x \<Rightarrow> [] | Inr d \<Rightarrow> d) = [] \<longrightarrow>
        (read_cpu_temp_from_lm_sensors (run_sensors e) = Inr (Some w) \<longrightarrow>
           read_cpu_temperature e = ([SensorsTemperatures, SubprocessRun], Inr (Some w)))
      \<and> (read_cpu_temp_from_lm_sensors (run_sensors e) = Inl y \<longrightarrow>
           read_cpu_temperature e = ([SensorsTemperatures, SubprocessRun], Inl y))
      \<and> (read_cpu_temp_from_lm_sensors (run_sensors e) = Inr None \<longrightarrow>
           read_cpu_temperature e =
             ([SensorsTemperatures, SubprocessRun, ThermalIsdir],
              read_cpu_temp_from_sysfs (thermal e))))
   \<and> prefix (fst (read_cpu_temperature e)) [SensorsTemperatures, SubprocessRun, ThermalIsdir]"
proof (intro conjI impI)
  assume "sensors_temperatures e = Inr d" "(g, es) \<in> set d" "Some v \<in> set es"
  then show "read_cpu_temperature e = ([SensorsTemperatures], Inr (Some (mean (sensor_values d))))"
    using sensor_values_nonempty [of g es d v] by (simp add: read_cpu_temperature_cases)
next
  assume "sensors_temperatures e = Inl x"
  then show "read_cpu_temperature e = read_cpu_temperature (e \<lparr> sensors_temperatures := Inr [] \<rparr>)"
    by (simp add: read_cpu_temperature_cases sensor_values_def split: sum.splits option.splits)
next
  assume "sensor_values (case sensors_temperatures e of Inl x \<Rightarrow> [] | Inr d \<Rightarrow> d) = []"
     and "read_cpu_temp_from_lm_sensors (run_sensors e) = Inr (Some w)"
  then show "read_cpu_temperature e = ([SensorsTemperatures, SubprocessRun], Inr (Some w))"
    by (simp add: read_cpu_temperature_cases)
next
  assume "sensor_values (case sensors_temperatures e of Inl x \<Rightarrow> [] | Inr d \<Rightarrow> d) = []"
     and "read_cpu_temp_from_lm_sensors (run_sensors e) = Inl y"
  then show "read_cpu_temperature e = ([SensorsTemperatures, SubprocessRun], Inl y)"
    by (simp add: read_cpu_temperature_cases)
next
  assume "sensor_values (case sensors_temperatures e of Inl x \<Rightarrow> [] | Inr d \<Rightarrow> d) = []"
     and "read_cpu_temp_from_lm_sensors (run_sensors e) = Inr None"
  then show "read_cpu_temperature e =
               ([SensorsTemperatures, SubprocessRun, ThermalIsdir],
                read_cpu_temp_from_sysfs (thermal e))"
    by (simp add: read_cpu_temperature_cases)
next
  show "prefix (fst (read_cpu_temperature e)) [SensorsTemperatures, SubprocessRun, ThermalIsdir]"
    by (rule calls_in_order)
qed

lemma example_tool_values:
  "extract_temp_values_from_text text_two_readings = [55]"
  by (simp add: extract_temp_values_from_text_def text_two_readings_def match_at_def Let_def
      unsigned_value_def digits_value_def)

theorem sensor_api_short_circuit_witness:
  "read_cpu_temperature env_sensors = ([SensorsTemperatures], Inr (Some 45))
   \<and> read_cpu_temperature env_bare =
       read_cpu_temperature (env_bare \<lparr> sensors_temperatures := Inr [] \<rparr>)
   \<and> read_cpu_temperature env_tool = ([SensorsTemperatures, SubprocessRun], Inr (Some 55))
   \<and> read_cpu_temperature env_perm = ([SensorsTemperatures, SubprocessRun], Inl PermissionError)
   \<and> read_cpu_temperature env_zone =
       ([SensorsTemperatures, SubprocessRun, ThermalIsdir], Inr (Some 45))"
proof -
  have d: "sensors_temperatures env_sensors =
             Inr [(''coretemp'', [Some 40, None, Some 50]), (''acpitz'', [])]"
    by (simp add: env_sensors_def)
  have m: "mean (sensor_values [(''coretemp'', [Some 40, None, Some 50]), (''acpitz'', [])]) = 45"
    by (simp add: mean_def sensor_values_def map_filter_def)
  have x: "sensors_temperatures env_bare = Inl OtherException"
    by (simp add: env_bare_def)
  have n: "sensor_values (case sensors_temperatures env_tool of Inl x \<Rightarrow> [] | Inr d \<Rightarrow> d) = []"
          "sensor_values (case sensors_temperatures env_perm of Inl x \<Rightarrow> [] | Inr d \<Rightarrow> d) = []"
          "sensor_values (case sensors_temperatures env_zone of Inl x \<Rightarrow> [] | Inr d \<Rightarrow> d) = []"
    by (simp_all add: env_tool_def env_perm_def env_zone_def env_bare_def sensor_values_def)
  have t: "read_cpu_temp_from_lm_sensors (run_sensors env_tool) = Inr (Some 55)"
    by (simp add: env_tool_def read_cpu_temp_from_lm_sensors_def example_tool_values mean_def)
       (simp add: text_two_readings_def)
  have p: "read_cpu_temp_from_lm_sensors (run_sensors env_perm) = Inl PermissionError"
    by (simp add: env_perm_def read_cpu_temp_from_lm_sensors_def)
  have z: "read_cpu_temp_from_lm_sensors (run_sensors env_zone) = Inr None"
    by (simp add: env_zone_def env_bare_def read_cpu_temp_from_lm_sensors_def)
  have s: "read_cpu_temp_from_sysfs (thermal env_zone) = Inr (Some 45)"
    by (simp add: env_zone_def read_cpu_temp_from_sysfs_def zone_value_def zone_milli_def
        map_filter_def mean_def)
  have 1: "read_cpu_temperature env_sensors = ([SensorsTemperatures], Inr (Some 45))"
    using sensor_api_short_circuit
         [of env_sensors "[(''coretemp'', [Some 40, None, Some 50]), (''acpitz'', [])]"
             "''coretemp''" "[Some 40, None, Some 50]" 40] d m
    by simp
  have 2: "read_cpu_temperature env_bare =
             read_cpu_temperature (env_bare \<lparr> sensors_temperatures := Inr [] \<rparr>)"
    using sensor_api_short_circuit [of env_bare _ _ _ _ OtherException] x by simp
  have 3: "read_cpu_temperature env_tool = ([SensorsTemperatures, SubprocessRun], Inr (Some 55))"
    using sensor_api_short_circuit [of env_tool _ _ _ _ _ 55] n(1) t by simp
  have 4: "read_cpu_temperature env_perm =
             ([SensorsTemperatures, SubprocessRun], Inl PermissionError)"
    using sensor_api_short_circuit [of env_perm _ _ _ _ _ _ PermissionError] n(2) p by simp
  have 5: "read_cpu_temperature env_zone =
             ([SensorsTemperatures, SubprocessRun, ThermalIsdir], Inr (Some 45))"
    using sensor_api_short_circuit [of env_zone] n(3) z s by simp
  from 1 2 3 4 5 show ?thesis by simp
qed


section \<open>The thermal zones against the reference algorithm\<close>

text \<open>
  The source rescales a raw value only when it is greater than 1000, the reference
  algorithm when its magnitude is. The two agree on every directory in which no raw
  value lies in \<open>[-20000, -1000)\<close> and no type label is read as the empty text.
\<close>

lemma zone_value_agrees:
  assumes "\<forall>raw. temp_file z = Holds (Some raw) \<longrightarrow> raw < -20000 \<or> -1000 \<le> raw"
      and "type_file z \<noteq> Holds []"
  shows "zone_value z = spec_zone_value z"
  using assms
  by (auto simp: zone_value_def spec_zone_value_def cpu_related_def Let_def
      split: sysfile.splits option.splits)

lemma sysfs_agrees:
  assumes "\<forall>z\<in>set zs.
             (\<forall>raw. temp_file z = Holds (Some raw) \<longrightarrow> raw < -20000 \<or> -1000 \<le> raw)
             \<and> type_file z \<noteq> Holds []"
  shows "read_cpu_temp_from_sysfs (Listing zs) = Inr (spec_thermal_zone_fallback zs)"
proof -
  have "List.map_filter zone_value zs = List.map_filter spec_zone_value zs"
    using assms
  proof (induction zs)
    case Nil
    then show ?case by simp
  next
    case (Cons z zs)
    have eq: "zone_value z = spec_zone_value z"
      using Cons.prems by (intro zone_value_agrees) simp_all
    have ih: "List.map_filter zone_value zs = List.map_filter spec_zone_value zs"
      using Cons by simp
    show ?case by (simp add: map_filter_simps eq ih split: option.splits)
  qed
  then show ?thesis
    by (simp add: read_cpu_temp_from_sysfs_def spec_thermal_zone_fallback_def Let_def)
qed

lemma sysfs_millidegree_examples:
  "read_cpu_temp_from_sysfs (Listing [zone_milli]) = Inr (Some 45)
   \<and> read_cpu_temp_from_sysfs (Listing [zone_plain]) = Inr (Some 45)"
  by (simp add: read_cpu_temp_from_sysfs_def zone_value_def zone_milli_def zone_plain_def
      map_filter_def mean_def)

text \<open>
  C5. On a package zone that reports \<open>-5000\<close>, five degrees below zero in millidegrees,
  the reference algorithm rescales the value to \<open>-5.0\<close> and returns it, while the source
  leaves it at \<open>-5000\<close>, discards it as out of range and returns no data.
\<close>

theorem sysfs_negative_millidegrees:
  "read_cpu_temp_from_sysfs (Listing [zone_frost]) = Inr None
   \<and> spec_thermal_zone_fallback [zone_frost] = Some (-5)"
  by (simp add: read_cpu_temp_from_sysfs_def spec_thermal_zone_fallback_def zone_value_def
      spec_zone_value_def zone_frost_def map_filter_def cpu_related_def mean_def)

section \<open>Properties of the temperature pattern\<close>

lemma takeWhile_run:
  "list_all P xs \<Longrightarrow> \<not> P y \<Longrightarrow> takeWhile P (xs @ y # ys) = xs"
  by (simp add: takeWhile_tail list_all_iff)

lemma head_after_spaces:
  assumes "list_all (\<lambda>c. c = Space) ws" and "dg = [] \<or> dg = [Degree]"
  shows "\<exists>y ys. ws @ dg @ CapC # rest = y # ys \<and> \<not> is_digit y \<and> y \<noteq> Dot"
  using assms by (cases ws) auto

lemma match_spaces:
  assumes "list_all (\<lambda>c. c = Space) ws" and "dg = [] \<or> dg = [Degree]"
  shows "takeWhile (\<lambda>c. c = Space) (ws @ dg @ CapC # rest) = ws"
  using assms by (auto simp: takeWhile_run)

lemma match_degree:
  assumes "dg = [] \<or> dg = [Degree]"
  shows "takeWhile (\<lambda>c. c = Degree) (take 1 (dg @ CapC # rest)) = dg"
  using assms by auto

lemma match_digits:
  assumes "list_all is_digit ds" and "list_all (\<lambda>c. c = Space) ws" and "dg = [] \<or> dg = [Degree]"
  shows "takeWhile is_digit (ds @ ws @ dg @ CapC # rest) = ds"
proof -
  obtain y ys where y: "ws @ dg @ CapC # rest = y # ys" "\<not> is_digit y"
    using head_after_spaces [OF assms(2,3)] by blast
  show ?thesis
    unfolding y(1) by (rule takeWhile_run [OF assms(1) y(2)])
qed

lemma match_fraction:
  assumes "fr = [] \<or> (\<exists>fs. fr = Dot # fs \<and> fs \<noteq> [] \<and> list_all is_digit fs)"
      and "list_all (\<lambda>c. c = Space) ws" and "dg = [] \<or> dg = [Degree]"
  shows "(case fr @ ws @ dg @ CapC # rest of
            Dot # r \<Rightarrow> (if takeWhile is_digit r = [] then [] else Dot # takeWhile is_digit r)
          | _ \<Rightarrow> []) = fr"
proof (cases "fr = []")
  case True
  obtain y ys where y: "ws @ dg @ CapC # rest = y # ys" "y \<noteq> Dot"
    using head_after_spaces [OF assms(2,3)] by blast
  show ?thesis
    unfolding True append_Nil y(1) using y(2) by (cases y) simp_all
next
  case False
  then obtain fs where fs: "fr = Dot # fs" "fs \<noteq> []" "list_all is_digit fs"
    using assms(1) by blast
  have "takeWhile is_digit (fs @ ws @ dg @ CapC # rest) = fs"
    by (rule match_digits [OF fs(3) assms(2,3)])
  then show ?thesis
    using fs(2) by (simp add: fs(1))
qed

lemma match_int_digits:
  assumes "list_all is_digit ds"
      and "fr = [] \<or> (\<exists>fs. fr = Dot # fs \<and> fs \<noteq> [] \<and> list_all is_digit fs)"
      and "list_all (\<lambda>c. c = Space) ws" and "dg = [] \<or> dg = [Degree]"
  shows "takeWhile is_digit (ds @ fr @ ws @ dg @ CapC # rest) = ds"
proof (cases "fr = []")
  case True
  show ?thesis unfolding True append_Nil by (rule match_digits [OF assms(1,3,4)])
next
  case False
  then obtain fs where fs: "fr = Dot # fs" using assms(2) by blast
  have "\<not> is_digit Dot" by simp
  from takeWhile_run [OF assms(1) this] show ?thesis
    unfolding fs by simp
qed

lemma match_sign:
  assumes "sg = [] \<or> sg = [Plus] \<or> sg = [Minus]" and "ds \<noteq> []" and "list_all is_digit ds"
  shows "takeWhile is_sign (take 1 (sg @ ds @ tail)) = sg"
proof -
  obtain d ds' where d: "ds = d # ds'" "is_digit d"
    using assms(2,3) by (cases ds) auto
  then have "\<not> is_sign d" by (cases d) simp_all
  then show ?thesis using assms(1) d(1) by auto
qed

lemma drop_len: "drop (length xs) (xs @ ys) = ys"
  by simp

lemma match_at_token:
  assumes "sg = [] \<or> sg = [Plus] \<or> sg = [Minus]"
      and "ds \<noteq> []" and "list_all is_digit ds"
      and "fr = [] \<or> (\<exists>fs. fr = Dot # fs \<and> fs \<noteq> [] \<and> list_all is_digit fs)"
      and "list_all (\<lambda>c. c = Space) ws"
      and "dg = [] \<or> dg = [Degree]"
  shows "match_at (sg @ ds @ fr @ ws @ dg @ CapC # rest) =
           Some (sg @ ds @ fr,
                 length sg + length ds + length fr + length ws + length dg + 1)"
proof -
  have e: "(ds = []) = False" using assms(2) by simp
  show ?thesis
    unfolding match_at_def
    by (simp only: Let_def match_sign [OF assms(1-3)] drop_len match_int_digits [OF assms(3-6)]
        match_fraction [OF assms(4-6)] match_spaces [OF assms(5,6)] match_degree [OF assms(6)]
        e if_False list.case sym.case)
qed

lemma take1_sign:
  "takeWhile is_sign (take 1 s) = [] \<or> takeWhile is_sign (take 1 s) = [Plus]
   \<or> takeWhile is_sign (take 1 s) = [Minus]"
proof (cases s)
  case Nil
  then show ?thesis by simp
next
  case (Cons x xs)
  then show ?thesis by (cases x) simp_all
qed

lemma take1_prefix: "takeWhile P (take 1 s) @ drop (length (takeWhile P (take 1 s))) s = s"
  by (cases s) simp_all

lemma takeWhile_split: "takeWhile P s @ drop (length (takeWhile P s)) s = s"
  by (metis takeWhile_dropWhile_id dropWhile_eq_drop)

lemma all_takeWhile: "list_all P (takeWhile P s)"
  by (induction s) simp_all

lemma match_at_shape:
  assumes "match_at s = Some (g, n)"
  shows "\<exists>sg ds fr ws dg rest.
           s = sg @ ds @ fr @ ws @ dg @ CapC # rest
         \<and> (sg = [] \<or> sg = [Plus] \<or> sg = [Minus])
         \<and> ds \<noteq> [] \<and> list_all is_digit ds
         \<and> (fr = [] \<or> (\<exists>fs. fr = Dot # fs \<and> fs \<noteq> [] \<and> list_all is_digit fs))
         \<and> list_all (\<lambda>c. c = Space) ws
         \<and> (dg = [] \<or> dg = [Degree])
         \<and> g = sg @ ds @ fr
         \<and> n = length sg + length ds + length fr + length ws + length dg + 1"
proof -
  define sg where "sg = takeWhile is_sign (take 1 s)"
  define s1 where "s1 = drop (length sg) s"
  define ds where "ds = takeWhile is_digit s1"
  define s2 where "s2 = drop (length ds) s1"
  define fr where "fr = (case s2 of
                  Dot # r \<Rightarrow> (let fs = takeWhile is_digit r in if fs = [] then [] else Dot # fs)
                | _ \<Rightarrow> [])"
  define s3 where "s3 = drop (length fr) s2"
  define ws where "ws = takeWhile (\<lambda>c. c = Space) s3"
  define s4 where "s4 = drop (length ws) s3"
  define dg where "dg = takeWhile (\<lambda>c. c = Degree) (take 1 s4)"
  define s5 where "s5 = drop (length dg) s4"
  have m: "match_at s =
             (if ds = [] then None
              else (case s5 of
                      CapC # r \<Rightarrow>
                        Some (sg @ ds @ fr,
                              length sg + length ds + length fr + length ws + length dg + 1)
                    | _ \<Rightarrow> None))"
    unfolding match_at_def sg_def s1_def ds_def s2_def fr_def s3_def ws_def s4_def dg_def s5_def
    by (simp only: Let_def)
  from assms m have nz: "ds \<noteq> []"
    by (auto split: if_splits)
  from assms m nz obtain rest where r: "s5 = CapC # rest"
    and g: "g = sg @ ds @ fr"
    and n: "n = length sg + length ds + length fr + length ws + length dg + 1"
    by (auto split: list.splits sym.splits)
  have p1: "s = sg @ s1" unfolding sg_def s1_def by (rule take1_prefix [symmetric])
  have p2: "s1 = ds @ s2" unfolding ds_def s2_def by (rule takeWhile_split [symmetric])
  have f: "(fr = [] \<or> (\<exists>fs. fr = Dot # fs \<and> fs \<noteq> [] \<and> list_all is_digit fs)) \<and> s2 = fr @ s3"
  proof (cases s2)
    case Nil
    then show ?thesis by (simp add: fr_def s3_def)
  next
    case (Cons x xs)
    show ?thesis
    proof (cases "x = Dot \<and> takeWhile is_digit xs \<noteq> []")
      case True
      then have "fr = Dot # takeWhile is_digit xs"
        by (simp add: fr_def Cons)
      then show ?thesis
        using True by (simp add: s3_def Cons all_takeWhile takeWhile_split)
    next
      case False
      then have "fr = []"
        by (cases x) (auto simp: fr_def Cons)
      then show ?thesis by (simp add: s3_def)
    qed
  qed
  have p4: "s3 = ws @ s4" unfolding ws_def s4_def by (rule takeWhile_split [symmetric])
  have p5: "s4 = dg @ s5" unfolding dg_def s5_def by (rule take1_prefix [symmetric])
  have d: "dg = [] \<or> dg = [Degree]"
    unfolding dg_def by (cases s4) auto
  have "s = sg @ ds @ fr @ ws @ dg @ CapC # rest"
    using p1 p2 f p4 p5 r by simp
  moreover have "sg = [] \<or> sg = [Plus] \<or> sg = [Minus]"
    unfolding sg_def by (rule take1_sign)
  moreover have "list_all is_digit ds" unfolding ds_def by (rule all_takeWhile)
  moreover have "list_all (\<lambda>c. c = Space) ws" unfolding ws_def by (rule all_takeWhile)
  ultimately show ?thesis
    using nz f d g n by blast
qed

lemma extract_filter:
  "extract_temp_values_from_text raw =
     filter (\<lambda>v. -20 \<le> v \<and> v \<le> 150) (List.map_filter py_float (findall raw))"
proof -
  have "concat (map (\<lambda>m. case py_float m of None \<Rightarrow> []
                          | Some v \<Rightarrow> if -20 \<le> v \<and> v \<le> 150 then [v] else []) ms)
        = filter (\<lambda>v. -20 \<le> v \<and> v \<le> 150) (List.map_filter py_float ms)" for ms
    by (induction ms) (simp_all add: map_filter_simps split: option.splits)
  then show ?thesis by (simp add: extract_temp_values_from_text_def)
qed

lemma lm_sensors_completed:
  assumes "returncode result = 0" and "stdout result \<noteq> []"
  shows "read_cpu_temp_from_lm_sensors (Inr result) =
           Inr (if extract_temp_values_from_text (stdout result) = [] then None
                else Some (mean (extract_temp_values_from_text (stdout result))))"
  using assms by (simp add: read_cpu_temp_from_lm_sensors_def Let_def)

lemma example_values:
  "extract_temp_values_from_text text_two_readings = [55]"
  "extract_temp_values_from_text text_degree_only = []"
  "extract_temp_values_from_text text_letter_only = [55]"
  by (simp_all add: extract_temp_values_from_text_def text_two_readings_def text_degree_only_def
      text_letter_only_def match_at_def Let_def unsigned_value_def digits_value_def)

text \<open>
  C6, as the code has it. A token is an optional sign, one or more digits, optionally a
  dot and one or more digits, then any amount of white space, an optional degree sign and
  a required capital C. Every text that starts with such a token matches, with the number
  as the captured group; every match has this shape. The extracted values are the
  parsed numbers of the matches that lie in \<open>[-20, 150]\<close>, in order, and a tool that
  exits with 0 and prints something yields their mean, or no data when none remains.
\<close>

theorem sensors_tool_tokens:
  "((sg = [] \<or> sg = [Plus] \<or> sg = [Minus]) \<longrightarrow> ds \<noteq> [] \<longrightarrow> list_all is_digit ds \<longrightarrow>
      (fr = [] \<or> (\<exists>fs. fr = Dot # fs \<and> fs \<noteq> [] \<and> list_all is_digit fs)) \<longrightarrow>
      list_all (\<lambda>c. c = Space) ws \<longrightarrow> (dg = [] \<or> dg = [Degree]) \<longrightarrow>
      match_at (sg @ ds @ fr @ ws @ dg @ CapC # rest) =
        Some (sg @ ds @ fr, length sg + length ds + length fr + length ws + length dg + 1))
   \<and> (match_at s = Some (g, n) \<longrightarrow>
        (\<exists>sg ds fr ws dg rest.
           s = sg @ ds @ fr @ ws @ dg @ CapC # rest
         \<and> (sg = [] \<or> sg = [Plus] \<or> sg = [Minus])
         \<and> ds \<noteq> [] \<and> list_all is_digit ds
         \<and> (fr = [] \<or> (\<exists>fs. fr = Dot # fs \<and> fs \<noteq> [] \<and> list_all is_digit fs))
         \<and> list_all (\<lambda>c. c = Space) ws
         \<and> (dg = [] \<or> dg = [Degree])
         \<and> g = sg @ ds @ fr
         \<and> n = length sg + length ds + length fr + length ws + length dg + 1))
   \<and> extract_temp_values_from_text raw =
        filter (\<lambda>v. -20 \<le> v \<and> v \<le> 150) (List.map_filter py_float (findall raw))
   \<and> (returncode result = 0 \<longrightarrow> stdout result \<noteq> [] \<longrightarrow>
        read_cpu_temp_from_lm_sensors (Inr result) =
          Inr (if extract_temp_values_from_text (stdout result) = [] then None
               else Some (mean (extract_temp_values_from_text (stdout result)))))"
  using match_at_token [of sg ds fr ws dg rest] match_at_shape [of s g n]
        extract_filter [of raw] lm_sensors_completed [of result]
  by blast

theorem sensors_tool_tokens_witness:
  "match_at text_two_readings = Some ([Plus, Digit 5, Digit 5, Dot, Digit 0], 7)
   \<and> read_cpu_temp_from_lm_sensors (Inr \<lparr> returncode = 0, stdout = text_two_readings \<rparr>) =
       Inr (Some 55)"
proof -
  have t: "text_two_readings =
             [Plus] @ [Digit 5, Digit 5] @ [Dot, Digit 0] @ [] @ [Degree] @ CapC #
             [Space, Digit 2, Digit 0, Digit 0, Dot, Digit 0, Degree, CapC]"
    by (simp add: text_two_readings_def)
  have n: "text_two_readings \<noteq> []"
    by (simp add: text_two_readings_def)
  note w = sensors_tool_tokens
             [of "[Plus]" "[Digit 5, Digit 5]" "[Dot, Digit 0]" "[]" "[Degree]"
                 "[Space, Digit 2, Digit 0, Digit 0, Dot, Digit 0, Degree, CapC]"
                 _ _ _ _ "\<lparr> returncode = 0, stdout = text_two_readings \<rparr>"]
  have 1: "match_at text_two_readings = Some ([Plus, Digit 5, Digit 5, Dot, Digit 0], 7)"
    unfolding t using w by simp
  have 2: "read_cpu_temp_from_lm_sensors (Inr \<lparr> returncode = 0, stdout = text_two_readings \<rparr>) =
             Inr (Some 55)"
    using w n by (simp add: example_values mean_def)
  from 1 2 show ?thesis by simp
qed

text \<open>
  C6, as stated, fails on the token pattern: a number followed by the degree sign and no
  letter is not a token for the code, which returns no data, and a number followed by a
  blank and C, with no degree sign, is one, which returns 55.
\<close>

theorem degree_sign_optional_letter_required:
  "read_cpu_temp_from_lm_sensors (Inr \<lparr> returncode = 0, stdout = text_degree_only \<rparr>) = Inr None
   \<and> read_cpu_temp_from_lm_sensors (Inr \<lparr> returncode = 0, stdout = text_letter_only \<rparr>) =
       Inr (Some 55)"
proof -
  have "text_degree_only \<noteq> []" "text_letter_only \<noteq> []"
    by (simp_all add: text_degree_only_def text_letter_only_def)
  then show ?thesis
    by (simp add: lm_sensors_completed example_values mean_def)
qed

section \<open>Properties of the store\<close>

lemma assigned_cong: "sql_name_eq a b \<Longrightarrow> assigned asg a = assigned asg b"
  by (simp add: assigned_def sql_name_eq_def)

lemma field_map:
  "field t (map f (columns t)) name =
     map_option f (find (\<lambda>k. sql_name_eq (col_name k) name) (columns t))"
proof -
  have "map_option snd (find (\<lambda>p. sql_name_eq (col_name (fst p)) name) (zip ks (map f ks)))
        = map_option f (find (\<lambda>k. sql_name_eq (col_name k) name) ks)" for ks
    by (induction ks) simp_all
  then show ?thesis by (simp add: field_def)
qed

lemma field_new_row:
  assumes "has_column t name" and "assigned asg name = Some v"
  shows "field t (new_row t asg) name = Some v"
proof -
  have "find (\<lambda>k. sql_name_eq (col_name k) name) (columns t) \<noteq> None"
    using assms(1) by (auto simp: has_column_def list_ex_iff find_None_iff)
  then obtain k where k: "find (\<lambda>k. sql_name_eq (col_name k) name) (columns t) = Some k"
    by auto
  then have "sql_name_eq (col_name k) name"
    by (auto simp: find_Some_iff)
  then have "assigned asg (col_name k) = Some v"
    using assms(2) assigned_cong by metis
  then show ?thesis
    by (simp add: new_row_def field_map k)
qed

lemma list_ex_zip_map:
  "list_ex (\<lambda>(k, v). P k v) (zip ks (map f ks)) = list_ex (\<lambda>k. P k (f k)) ks"
  by (induction ks) simp_all

lemma insert_measurement_row:
  assumes "view c = Some t" and "writable c" and "insert_ready t"
      and "asg = [(''captured_at'', Text ts), (''cpu_percent'', Real cpu),
                  (''ram_percent'', Real ram), (''gpu_load_percent'', sql_of_float gl),
                  (''gpu_temp_c'', sql_of_float gt), (''cpu_temp_c'', sql_of_float ct)]"
  shows "insert_measurement c ts (Num cpu) (Num ram) gl gt ct =
           (c \<lparr> durable := Some (t \<lparr> rows := rows t @ [new_row t asg], seq := seq t + 1 \<rparr>),
               txn := None \<rparr>, None)"
proof -
  have cols: "\<not> list_ex (\<lambda>p. \<not> list_ex (\<lambda>k. sql_name_eq (col_name k) (fst p)) (columns t)) asg"
    using assms(3)
    by (simp add: assms(4) insert_ready_def has_column_def required_columns_def
        optional_columns_def)
  have req: "assigned asg n \<noteq> None \<and> assigned asg n \<noteq> Some Null"
    if "list_ex (sql_name_eq k) required_columns" "sql_name_eq k n" for k n
  proof -
    from that(1) obtain r where r: "r \<in> set required_columns" "sql_name_eq k r"
      by (auto simp: list_ex_iff)
    then have "sql_name_eq r n"
      using that(2) by (simp add: sql_name_eq_def)
    then have "assigned asg n = assigned asg r"
      by (simp add: assigned_def sql_name_eq_def)
    moreover have "assigned asg r \<noteq> None \<and> assigned asg r \<noteq> Some Null"
      using r(1)
      by (auto simp: required_columns_def assms(4) assigned_def sql_name_eq_def sql_lower_def)
    ultimately show ?thesis by simp
  qed
  have nn: "\<not> list_ex (\<lambda>(k, v). notnull k \<and> v = Null) (zip (columns t) (new_row t asg))"
  proof -
    have "\<not> (notnull k \<and>
             (case assigned asg (col_name k) of Some v \<Rightarrow> v
              | None \<Rightarrow> if autoincrement k then Integer (seq t + 1) else Null) = Null)"
      if "k \<in> set (columns t)" for k
    proof
      assume a: "notnull k \<and>
             (case assigned asg (col_name k) of Some v \<Rightarrow> v
              | None \<Rightarrow> if autoincrement k then Integer (seq t + 1) else Null) = Null"
      then have "list_ex (sql_name_eq (col_name k)) required_columns"
        using assms(3) that by (auto simp: insert_ready_def list_all_iff)
      from req [OF this, of "col_name k"] a show False
        by (auto simp: sql_name_eq_def split: option.splits)
    qed
    then show ?thesis
      unfolding new_row_def list_ex_zip_map by (simp add: list_ex_iff)
  qed
  have "exec_insert c asg =
          (write_dml c (Some (t \<lparr> rows := rows t @ [new_row t asg], seq := seq t + 1 \<rparr>)), None)"
    using cols nn assms(1,2) by (simp add: exec_insert_def)
  then show ?thesis
    using assms(2) by (simp add: insert_measurement_def assms(4) commit_def write_dml_def)
qed

lemma float_read_back:
  "float_of_sql (sql_of_float x) = (if x = Some NaN then None else x)"
proof (cases x)
  case None
  then show ?thesis by simp
next
  case (Some f)
  then show ?thesis by (cases f) simp_all
qed

text \<open>
  C7, as the code has it. On a connection that can write and whose table has the six
  columns, with only the three required ones declared \<^verbatim>\<open>NOT NULL\<close>, and for a sample
  whose CPU and memory readings are numbers, \<open>insert_measurement\<close> returns normally
  with no transaction left open, and the committed table read afresh is the table
  before the call with exactly one row appended. That row holds the time stamp and the
  two readings as passed in; under each optional column it holds \<^verbatim>\<open>NULL\<close> when the
  value is \<open>None\<close> or \<^verbatim>\<open>nan\<close> and the number otherwise, so a fresh read hands back the
  optional value unless it was \<^verbatim>\<open>nan\<close>, for which it hands back \<open>None\<close>.
\<close>

theorem insert_then_fresh_read:
  assumes "view c = Some t" and "writable c" and "insert_ready t"
  shows "\<exists>c' row.
           insert_measurement c ts (Num cpu) (Num ram) gl gt ct = (c', None)
         \<and> txn c' = None
         \<and> fresh_read c' = Some (t \<lparr> rows := rows t @ [row], seq := seq t + 1 \<rparr>)
         \<and> field t row ''captured_at'' = Some (Text ts)
         \<and> field t row ''cpu_percent'' = Some (Real cpu)
         \<and> field t row ''ram_percent'' = Some (Real ram)
         \<and> field t row ''gpu_load_percent'' = Some (sql_of_float gl)
         \<and> field t row ''gpu_temp_c'' = Some (sql_of_float gt)
         \<and> field t row ''cpu_temp_c'' = Some (sql_of_float ct)
         \<and> map_option float_of_sql (field t row ''gpu_load_percent'') =
             Some (if gl = Some NaN then None else gl)
         \<and> map_option float_of_sql (field t row ''gpu_temp_c'') =
             Some (if gt = Some NaN then None else gt)
         \<and> map_option float_of_sql (field t row ''cpu_temp_c'') =
             Some (if ct = Some NaN then None else ct)"
proof -
  define asg where "asg = [(''captured_at'', Text ts), (''cpu_percent'', Real cpu),
                  (''ram_percent'', Real ram), (''gpu_load_percent'', sql_of_float gl),
                  (''gpu_temp_c'', sql_of_float gt), (''cpu_temp_c'', sql_of_float ct)]"
  have has: "has_column t n" if "n \<in> set (required_columns @ optional_columns)" for n
    using assms(3) that by (simp add: insert_ready_def list_all_iff)
  have f: "field t (new_row t asg) n = Some v"
    if "n \<in> set (required_columns @ optional_columns)" "assigned asg n = Some v" for n v
    using field_new_row [OF has [OF that(1)] that(2)] .
  have a: "assigned asg ''captured_at'' = Some (Text ts)"
          "assigned asg ''cpu_percent'' = Some (Real cpu)"
          "assigned asg ''ram_percent'' = Some (Real ram)"
          "assigned asg ''gpu_load_percent'' = Some (sql_of_float gl)"
          "assigned asg ''gpu_temp_c'' = Some (sql_of_float gt)"
          "assigned asg ''cpu_temp_c'' = Some (sql_of_float ct)"
    by (simp_all add: asg_def assigned_def sql_name_eq_def sql_lower_def)
  have m: "''captured_at'' \<in> set (required_columns @ optional_columns)"
          "''cpu_percent'' \<in> set (required_columns @ optional_columns)"
          "''ram_percent'' \<in> set (required_columns @ optional_columns)"
          "''gpu_load_percent'' \<in> set (required_columns @ optional_columns)"
          "''gpu_temp_c'' \<in> set (required_columns @ optional_columns)"
          "''cpu_temp_c'' \<in> set (required_columns @ optional_columns)"
    by (simp_all add: required_columns_def optional_columns_def)
  show ?thesis
    apply (rule exI [of _ "c \<lparr> durable := Some (t \<lparr> rows := rows t @ [new_row t asg],
                                                   seq := seq t + 1 \<rparr>), txn := None \<rparr>"])
    apply (rule exI [of _ "new_row t asg"])
    apply (simp only: insert_measurement_row [OF assms asg_def]
        f [OF m(1) a(1)] f [OF m(2) a(2)] f [OF m(3) a(3)] f [OF m(4) a(4)]
        f [OF m(5) a(5)] f [OF m(6) a(6)] option.map float_read_back)
    apply (simp add: fresh_read_def)
    done
qed

lemma repo_ready_insertable:
  "view repo_ready = Some measurements_new \<and> writable repo_ready \<and> insert_ready measurements_new"
  by (simp add: repo_ready_def view_def insert_ready_def measurements_new_def has_column_def
      required_columns_def optional_columns_def sql_name_eq_def sql_lower_def)

theorem insert_then_fresh_read_witness:
  "\<exists>c' row.
     insert_measurement repo_ready ''2024-01-01 12:00:00'' (Num 12.5) (Num 40) None None
       (Some (Num 51)) = (c', None)
   \<and> txn c' = None
   \<and> fresh_read c' = Some (measurements_new \<lparr> rows := rows measurements_new @ [row],
                                               seq := seq measurements_new + 1 \<rparr>)
   \<and> field measurements_new row ''captured_at'' = Some (Text ''2024-01-01 12:00:00'')
   \<and> field measurements_new row ''cpu_percent'' = Some (Real 12.5)
   \<and> field measurements_new row ''ram_percent'' = Some (Real 40)
   \<and> field measurements_new row ''gpu_load_percent'' = Some Null
   \<and> field measurements_new row ''gpu_temp_c'' = Some Null
   \<and> field measurements_new row ''cpu_temp_c'' = Some (Real 51)"
proof -
  have v: "view repo_ready = Some measurements_new"
    and w: "writable repo_ready"
    and r: "insert_ready measurements_new"
    using repo_ready_insertable by simp_all
  from insert_then_fresh_read [OF v w r, of "''2024-01-01 12:00:00''" "12.5" 40 None None
         "Some (Num 51)"]
  show ?thesis by auto
qed

text \<open>
  C7, as stated, fails for a sample that holds \<^verbatim>\<open>nan\<close>: the temperature \<^verbatim>\<open>nan\<close> of a
  GPU is committed as \<^verbatim>\<open>NULL\<close>, which a fresh read hands back as \<open>None\<close>, and a
  \<^verbatim>\<open>nan\<close> reading of the CPU makes the insert raise and commit no row.
\<close>

theorem nan_is_stored_as_null:
  "fresh_read (fst (insert_measurement repo_ready ''2024-01-01 12:00:00'' (Num 12.5) (Num 40)
                      (Some (Num 50)) (Some NaN) None)) =
     Some (measurements_new
             \<lparr> rows := [[Integer 1, Text ''2024-01-01 12:00:00'', Real 12.5, Real 40, Real 50,
                         Null, Null]],
               seq := 1 \<rparr>)
   \<and> float_of_sql Null = None
   \<and> insert_measurement repo_ready ''2024-01-01 12:00:00'' NaN (Num 40) None None None =
       (repo_ready \<lparr> txn := Some (Some measurements_new) \<rparr>, Some IntegrityError)"
  by (simp add: insert_measurement_def exec_insert_def repo_ready_def view_def
      measurements_new_def new_row_def assigned_def sql_name_eq_def sql_lower_def
      write_dml_def begin_implicit_def commit_def fresh_read_def)

section \<open>Properties of the schema migration\<close>

lemma ensure_column_step:
  assumes "txn c = None" and "writable c" and "durable c = Some t"
      and "\<forall>k\<in>set (columns t). sql_name_eq (col_name k) n \<longrightarrow> col_name k = n"
  shows "\<exists>c'. ensure_column c n ''REAL'' = Inr c' \<and> txn c' = None \<and> writable c'
              \<and> durable c' = Some (add_if_missing n t)"
proof (cases "n \<in> set (map col_name (columns t))")
  case True
  then show ?thesis
    using assms by (simp add: ensure_column_def table_info_def view_def add_if_missing_def)
next
  case False
  then have "\<not> list_ex (\<lambda>k. sql_name_eq (col_name k) n) (columns t)"
    using assms(4) by (auto simp: list_ex_iff)
  then show ?thesis
    using False assms(1-3)
    by (simp add: ensure_column_def table_info_def view_def add_if_missing_def
        exec_add_column_def write_ddl_def real_column_def)
qed

lemma optional_names_apart:
  "sql_name_eq ''gpu_load_percent'' ''gpu_temp_c'' = False"
  "sql_name_eq ''gpu_load_percent'' ''cpu_temp_c'' = False"
  "sql_name_eq ''gpu_temp_c'' ''cpu_temp_c'' = False"
  "sql_name_eq ''gpu_temp_c'' ''gpu_load_percent'' = False"
  "sql_name_eq ''cpu_temp_c'' ''gpu_load_percent'' = False"
  "sql_name_eq ''cpu_temp_c'' ''gpu_temp_c'' = False"
  by (simp_all add: sql_name_eq_def sql_lower_def)

lemma clash_free:
  assumes "no_case_clash t" and "n \<in> set optional_columns"
  shows "\<forall>k\<in>set (columns t). sql_name_eq (col_name k) n \<longrightarrow> col_name k = n"
  using assms by (auto simp: no_case_clash_def list_all_iff)

lemma no_case_clash_add:
  assumes "no_case_clash t" and "n \<in> set optional_columns"
  shows "no_case_clash (add_if_missing n t)"
  using assms
  by (auto simp: no_case_clash_def add_if_missing_def real_column_def optional_columns_def
      optional_names_apart)

lemma migrated_steps:
  "add_if_missing ''cpu_temp_c'' (add_if_missing ''gpu_temp_c''
     (add_if_missing ''gpu_load_percent'' t)) = migrated t"
  by (simp add: add_if_missing_def migrated_def missing_columns_def optional_columns_def
      real_column_def)

lemma create_schema_existing:
  assumes "txn c = None" and "writable c" and "durable c = Some t" and "no_case_clash t"
  shows "\<exists>c'. create_schema c = Inr c' \<and> txn c' = None \<and> durable c' = Some (migrated t)"
proof -
  have m: "''gpu_load_percent'' \<in> set optional_columns" "''gpu_temp_c'' \<in> set optional_columns"
          "''cpu_temp_c'' \<in> set optional_columns"
    by (simp_all add: optional_columns_def)
  let ?t1 = "add_if_missing ''gpu_load_percent'' t"
  let ?t2 = "add_if_missing ''gpu_temp_c'' ?t1"
  have c0: "exec_create_table c = Inr c"
    using assms(1,3) by (simp add: exec_create_table_def view_def)
  obtain c1 where c1: "ensure_column c ''gpu_load_percent'' ''REAL'' = Inr c1" "txn c1 = None"
      "writable c1" "durable c1 = Some ?t1"
    using ensure_column_step [OF assms(1-3) clash_free [OF assms(4) m(1)]] by blast
  have n1: "no_case_clash ?t1"
    by (rule no_case_clash_add [OF assms(4) m(1)])
  obtain c2 where c2: "ensure_column c1 ''gpu_temp_c'' ''REAL'' = Inr c2" "txn c2 = None"
      "writable c2" "durable c2 = Some ?t2"
    using ensure_column_step [OF c1(2-4) clash_free [OF n1 m(2)]] by blast
  have n2: "no_case_clash ?t2"
    by (rule no_case_clash_add [OF n1 m(2)])
  obtain c3 where c3: "ensure_column c2 ''cpu_temp_c'' ''REAL'' = Inr c3" "txn c3 = None"
      "writable c3" "durable c3 = Some (add_if_missing ''cpu_temp_c'' ?t2)"
    using ensure_column_step [OF c2(2-4) clash_free [OF n2 m(3)]] by blast
  have "create_schema c = Inr c3"
    by (simp add: create_schema_def c0 c1(1) c2(1) c3(1) commit_def c3(2))
  then show ?thesis
    using c3 by (simp add: migrated_steps)
qed

lemma create_schema_absent:
  assumes "txn c = None" and "writable c" and "durable c = None"
  shows "create_schema c = Inr (c \<lparr> durable := Some measurements_new \<rparr>)"
  using assms
  by (simp add: create_schema_def exec_create_table_def view_def write_ddl_def
      ensure_column_def table_info_def measurements_new_def commit_def)

lemma create_schema_fixed:
  assumes "txn c = None" and "durable c = Some t"
      and "set optional_columns \<subseteq> set (map col_name (columns t))"
  shows "create_schema c = Inr c"
  using assms
  by (simp add: create_schema_def exec_create_table_def view_def ensure_column_def
      table_info_def commit_def optional_columns_def)

lemma migrated_complete:
  "set optional_columns \<subseteq> set (map col_name (columns (migrated t)))"
  by (auto simp: migrated_def missing_columns_def real_column_def optional_columns_def)

lemma wf_add_if_missing:
  assumes "wf_table t"
      and "\<forall>k\<in>set (columns t). sql_name_eq (col_name k) n \<longrightarrow> col_name k = n"
  shows "wf_table (add_if_missing n t)"
proof (cases "n \<in> set (map col_name (columns t))")
  case True
  then show ?thesis using assms(1) by (simp add: add_if_missing_def)
next
  case False
  have "map sql_lower n \<notin> set (map (\<lambda>k. map sql_lower (col_name k)) (columns t))"
  proof
    assume "map sql_lower n \<in> set (map (\<lambda>k. map sql_lower (col_name k)) (columns t))"
    then obtain k where "k \<in> set (columns t)" "sql_name_eq (col_name k) n"
      by (auto simp: sql_name_eq_def)
    with assms(2) False show False by auto
  qed
  then show ?thesis
    using assms(1) False
    by (simp add: wf_table_def add_if_missing_def real_column_def list_all_iff)
qed

lemma wf_migrated:
  assumes "wf_table t" and "no_case_clash t"
  shows "wf_table (migrated t)"
proof -
  have m: "''gpu_load_percent'' \<in> set optional_columns" "''gpu_temp_c'' \<in> set optional_columns"
          "''cpu_temp_c'' \<in> set optional_columns"
    by (simp_all add: optional_columns_def)
  let ?t1 = "add_if_missing ''gpu_load_percent'' t"
  let ?t2 = "add_if_missing ''gpu_temp_c'' ?t1"
  have n1: "no_case_clash ?t1" by (rule no_case_clash_add [OF assms(2) m(1)])
  have n2: "no_case_clash ?t2" by (rule no_case_clash_add [OF n1 m(2)])
  have w1: "wf_table ?t1" by (rule wf_add_if_missing [OF assms(1) clash_free [OF assms(2) m(1)]])
  have w2: "wf_table ?t2" by (rule wf_add_if_missing [OF w1 clash_free [OF n1 m(2)]])
  have "wf_table (add_if_missing ''cpu_temp_c'' ?t2)"
    by (rule wf_add_if_missing [OF w2 clash_free [OF n2 m(3)]])
  then show ?thesis by (simp add: migrated_steps)
qed

lemma find_app:
  "find P (xs @ ys) = (case find P xs of None \<Rightarrow> find P ys | Some x \<Rightarrow> Some x)"
  by (induction xs) simp_all

lemma field_append:
  assumes "length r = length (columns t)"
  shows "field (t \<lparr> columns := columns t @ ks, rows := rs \<rparr>) (r @ pad) n =
           (case field t r n of
              Some v \<Rightarrow> Some v
            | None \<Rightarrow> map_option snd (find (\<lambda>p. sql_name_eq (col_name (fst p)) n) (zip ks pad)))"
  using assms by (simp add: field_def find_app split: option.splits)

lemma field_present:
  assumes "length r = length (columns t)" and "has_column t n"
  shows "field t r n \<noteq> None"
proof -
  from assms(2) obtain k where k: "k \<in> set (columns t)" "sql_name_eq (col_name k) n"
    by (auto simp: has_column_def list_ex_iff)
  then obtain i where i: "i < length (columns t)" "columns t ! i = k"
    by (auto simp: in_set_conv_nth)
  then have "(k, r ! i) \<in> set (zip (columns t) r)"
    using assms(1) by (auto simp: set_zip)
  with k(2) show ?thesis
    by (auto simp: field_def find_None_iff)
qed

lemma field_absent:
  assumes "\<not> has_column t n"
  shows "field t r n = None"
  using assms
  by (auto simp: field_def find_None_iff has_column_def list_ex_iff dest: set_zip_leftD)

lemma find_padding:
  assumes "n \<in> set ns"
  shows "map_option snd (find (\<lambda>p. sql_name_eq (col_name (fst p)) n)
           (zip (map real_column ns) (replicate (length ns) Null))) = Some Null"
  using assms by (induction ns) (auto simp: real_column_def sql_name_eq_def)

lemma migrated_fields:
  assumes "wf_table t" and "no_case_clash t" and "r \<in> set (rows t)"
  shows "(has_column t n \<longrightarrow>
            field (migrated t) (r @ replicate (length (missing_columns t)) Null) n = field t r n)
       \<and> (n \<in> set (missing_columns t) \<longrightarrow>
            field (migrated t) (r @ replicate (length (missing_columns t)) Null) n = Some Null)"
proof -
  have len: "length r = length (columns t)"
    using assms(1,3) by (simp add: wf_table_def list_all_iff)
  have a: "field (migrated t) (r @ replicate (length (missing_columns t)) Null) n = field t r n"
    if "has_column t n"
    using field_present [OF len that] field_append [OF len]
    by (auto simp: migrated_def)
  have b: "field (migrated t) (r @ replicate (length (missing_columns t)) Null) n = Some Null"
    if "n \<in> set (missing_columns t)"
  proof -
    from that have opt: "n \<in> set optional_columns" and new: "n \<notin> set (map col_name (columns t))"
      by (simp_all add: missing_columns_def)
    have "\<not> has_column t n"
      using clash_free [OF assms(2) opt] new by (auto simp: has_column_def list_ex_iff)
    then have "field t r n = None" by (rule field_absent)
    then show ?thesis
      using field_append [OF len] find_padding [OF that]
      by (simp add: migrated_def)
  qed
  from a b show ?thesis by blast
qed

text \<open>
  C4. On a fresh, writable connection whose table, if there is one, has no column
  spelled like an optional column in another case, \<open>create_schema\<close> returns normally,
  and running it again on the result changes nothing. Without a table it creates the
  seven-column table. With a table it keeps the columns, the rows and the key counter and
  appends exactly the optional columns that are missing: the table is not recreated.
  A well-formed table stays well-formed (no duplicate columns); every earlier row reads
  as before under every column it had and reads \<^verbatim>\<open>NULL\<close> under every added column.
\<close>

theorem create_schema_idempotent_additive:
  assumes "txn c = None" and "writable c"
      and "\<forall>t. durable c = Some t \<longrightarrow> no_case_clash t"
  shows "\<exists>c'. create_schema c = Inr c' \<and> create_schema c' = Inr c' \<and> txn c' = None
         \<and> (durable c = None \<longrightarrow> durable c' = Some measurements_new)
         \<and> (\<forall>t. durable c = Some t \<longrightarrow>
              (\<exists>t'. durable c' = Some t'
                 \<and> columns t' = columns t @ map real_column (missing_columns t)
                 \<and> rows t' = map (\<lambda>r. r @ replicate (length (missing_columns t)) Null) (rows t)
                 \<and> seq t' = seq t
                 \<and> (wf_table t \<longrightarrow> wf_table t'
                      \<and> (\<forall>r\<in>set (rows t). \<forall>n.
                           (has_column t n \<longrightarrow>
                              field t' (r @ replicate (length (missing_columns t)) Null) n
                                = field t r n)
                         \<and> (n \<in> set (missing_columns t) \<longrightarrow>
                              field t' (r @ replicate (length (missing_columns t)) Null) n
                                = Some Null)))))"
proof (cases "durable c")
  case None
  let ?c' = "c \<lparr> durable := Some measurements_new \<rparr>"
  have 1: "create_schema c = Inr ?c'"
    by (rule create_schema_absent [OF assms(1,2) None])
  have 2: "create_schema ?c' = Inr ?c'"
    by (rule create_schema_fixed [where t = measurements_new])
       (simp_all add: assms(1) measurements_new_def optional_columns_def)
  show ?thesis
    using 1 2 None assms(1) by auto
next
  case (Some t)
  then have ncc: "no_case_clash t" using assms(3) by simp
  obtain c' where c': "create_schema c = Inr c'" "txn c' = None" "durable c' = Some (migrated t)"
    using create_schema_existing [OF assms(1,2) Some ncc] by blast
  have 2: "create_schema c' = Inr c'"
    by (rule create_schema_fixed [OF c'(2,3) migrated_complete])
  have 3: "wf_table (migrated t)" if "wf_table t"
    by (rule wf_migrated [OF that ncc])
  have 4: "(has_column t n \<longrightarrow>
            field (migrated t) (r @ replicate (length (missing_columns t)) Null) n = field t r n)
       \<and> (n \<in> set (missing_columns t) \<longrightarrow>
            field (migrated t) (r @ replicate (length (missing_columns t)) Null) n = Some Null)"
    if "wf_table t" "r \<in> set (rows t)" for r n
    by (rule migrated_fields [OF that(1) ncc that(2)])
  have 5: "columns (migrated t) = columns t @ map real_column (missing_columns t)"
      "rows (migrated t) = map (\<lambda>r. r @ replicate (length (missing_columns t)) Null) (rows t)"
      "seq (migrated t) = seq t"
    by (simp_all add: migrated_def)
  show ?thesis
    apply (rule exI [of _ c'])
    using c' 2 3 4 5 Some by auto
qed

theorem create_schema_idempotent_additive_witness:
  "\<exists>c'. create_schema repo_old = Inr c' \<and> create_schema c' = Inr c'
     \<and> (\<exists>t'. durable c' = Some t'
           \<and> columns t' = columns measurements_old @ [real_column ''cpu_temp_c'']
           \<and> rows t' =
               [[Integer 1, Text ''2023-12-31 23:59:59'', Real 7, Real 33, Null, Null, Null],
                [Integer 2, Text ''2024-01-01 00:00:00'', Real 9, Real 34, Real 61, Real 58, Null]]
           \<and> wf_table t')"
proof -
  have t: "txn repo_old = None" and w: "writable repo_old"
    and d: "durable repo_old = Some measurements_old"
    by (simp_all add: repo_old_def)
  have n: "\<forall>t. durable repo_old = Some t \<longrightarrow> no_case_clash t"
    by (simp add: d no_case_clash_def measurements_old_def optional_columns_def
        sql_name_eq_def sql_lower_def)
  have m: "missing_columns measurements_old = [''cpu_temp_c'']"
    by (simp add: missing_columns_def measurements_old_def optional_columns_def)
  have r: "rows measurements_old =
             [[Integer 1, Text ''2023-12-31 23:59:59'', Real 7, Real 33, Null, Null],
              [Integer 2, Text ''2024-01-01 00:00:00'', Real 9, Real 34, Real 61, Real 58]]"
    by (simp add: measurements_old_def)
  have f: "wf_table measurements_old"
    by (simp add: wf_table_def measurements_old_def sql_lower_def)
  from create_schema_idempotent_additive [OF t w n] obtain c' where
    c': "create_schema repo_old = Inr c'" "create_schema c' = Inr c'"
        "\<forall>t. durable repo_old = Some t \<longrightarrow>
              (\<exists>t'. durable c' = Some t'
                 \<and> columns t' = columns t @ map real_column (missing_columns t)
                 \<and> rows t' = map (\<lambda>r. r @ replicate (length (missing_columns t)) Null) (rows t)
                 \<and> seq t' = seq t
                 \<and> (wf_table t \<longrightarrow> wf_table t'
                      \<and> (\<forall>r\<in>set (rows t). \<forall>n.
                           (has_column t n \<longrightarrow>
                              field t' (r @ replicate (length (missing_columns t)) Null) n
                                = field t r n)
                         \<and> (n \<in> set (missing_columns t) \<longrightarrow>
                              field t' (r @ replicate (length (missing_columns t)) Null) n
                                = Some Null))))"
    by blast
  from c'(3) d obtain t' where
    t': "durable c' = Some t'"
        "columns t' = columns measurements_old @ map real_column (missing_columns measurements_old)"
        "rows t' = map (\<lambda>r. r @ replicate (length (missing_columns measurements_old)) Null)
                       (rows measurements_old)"
        "wf_table measurements_old \<longrightarrow> wf_table t'"
    by blast
  have "columns t' = columns measurements_old @ [real_column ''cpu_temp_c'']"
    using t'(2) by (simp add: m)
  moreover have "rows t' =
               [[Integer 1, Text ''2023-12-31 23:59:59'', Real 7, Real 33, Null, Null, Null],
                [Integer 2, Text ''2024-01-01 00:00:00'', Real 9, Real 34, Real 61, Real 58, Null]]"
    using t'(3) by (simp add: m r)
  moreover have "wf_table t'" using t'(4) f by simp
  ultimately show ?thesis using c'(1,2) t'(1) by blast
qed

text \<open>
  Why the spelling matters: a column that differs from an optional column only in case
  passes the exact test of \<^verbatim>\<open>_ensure_column\<close>, and \<^verbatim>\<open>ALTER TABLE\<close> then raises.
\<close>

lemma case_clash_raises:
  "create_schema \<lparr> durable = Some measurements_capitals, txn = None, writable = True \<rparr>
     = Inl OperationalError"
  by code_simp


section \<open>Properties of a tick\<close>





lemma tick_unfold:
  assumes "read_gpu_metrics (getGPUs e) = Inr (gl, gt)"
      and "snd (read_cpu_temperature e) = Inr ct"
  shows "update_all_metrics e a =
           (case insert_measurement (repo a) (now e) (Num (cpu_percent e))
                   (Num (virtual_memory_percent e)) gl gt (map_option Num ct) of
              (r, Some x) \<Rightarrow> (charts_after e gl gt (map_option Num ct) a \<lparr> repo := r \<rparr>, Some x)
            | (r, None) \<Rightarrow> (charts_after e gl gt (map_option Num ct) a
                              \<lparr> repo := r, after_queue := after_queue a @ [1000] \<rparr>, None))"
proof -
  have "update_all_metrics e a =
          (let a5 = charts_after e gl gt (map_option Num ct) a
           in case insert_measurement (repo a5) (now e) (Num (cpu_percent e))
                     (Num (virtual_memory_percent e)) gl gt (map_option Num ct) of
                (r, Some x) \<Rightarrow> (a5 \<lparr> repo := r \<rparr>, Some x)
              | (r, None) \<Rightarrow> (a5 \<lparr> repo := r, after_queue := after_queue a5 @ [1000] \<rparr>, None))"
    unfolding update_all_metrics_def assms Let_def charts_after_def
    by (cases gl; cases gt; cases ct) (simp_all split: prod.splits option.splits)
  then show ?thesis
    by (simp add: Let_def charts_after_def split: prod.splits option.splits)
qed

lemma charts_after_fields:
  "history (cpu_chart (charts_after e gl gt ct a)) =
     deque_append (max_points (cpu_chart a)) (history (cpu_chart a)) (Num (cpu_percent e))"
  "history (ram_chart (charts_after e gl gt ct a)) =
     deque_append (max_points (ram_chart a)) (history (ram_chart a))
       (Num (virtual_memory_percent e))"
  "history (gpu_load_chart (charts_after e gl gt ct a)) =
     deque_append (max_points (gpu_load_chart a)) (history (gpu_load_chart a))
       (case gl of None \<Rightarrow> Num 0 | Some v \<Rightarrow> v)"
  "history (gpu_temp_chart (charts_after e gl gt ct a)) =
     deque_append (max_points (gpu_temp_chart a)) (history (gpu_temp_chart a))
       (case gt of None \<Rightarrow> Num 0 | Some v \<Rightarrow> v)"
  "history (cpu_temp_chart (charts_after e gl gt ct a)) =
     deque_append (max_points (cpu_temp_chart a)) (history (cpu_temp_chart a))
       (case ct of None \<Rightarrow> Num 0 | Some v \<Rightarrow> v)"
  "repo (charts_after e gl gt ct a) = repo a"
  "after_queue (charts_after e gl gt ct a) = after_queue a"
  "reported (charts_after e gl gt ct a) = reported a"
  by (simp_all add: charts_after_def history_update_value)

lemma charts_after_texts:
  "value_var (gpu_load_chart (charts_after e gl gt ct a)) =
     (case gl of
        None \<Rightarrow> [Lit (''GPU load: N/A ('' @ txt_gpu_not_found @ '')'')]
      | Some v \<Rightarrow> [Lit (txt_current_load @ ''GPU: ''), Fixed1 v, Lit ''%''])"
  "value_var (gpu_temp_chart (charts_after e gl gt ct a)) =
     (case gt of
        None \<Rightarrow> [Lit ''GPU temp: N/A'']
      | Some v \<Rightarrow> [Lit (txt_current_temperature @ ''GPU: ''), Fixed1 v, Lit txt_degree_C])"
  "value_var (cpu_temp_chart (charts_after e gl gt ct a)) =
     (case ct of
        None \<Rightarrow> [Lit (''CPU temp: N/A ('' @ txt_sensor_unavailable @ '')'')]
      | Some v \<Rightarrow> [Lit (txt_current_temperature @ ''CPU: ''), Fixed1 v, Lit txt_degree_C])"
  by (simp_all add: charts_after_def update_value_def text_empty_def split: option.splits)

lemma tick_charts:
  assumes "read_gpu_metrics (getGPUs e) = Inr (gl, gt)"
      and "snd (read_cpu_temperature e) = Inr ct"
  shows "cpu_chart (fst (update_all_metrics e a)) =
           cpu_chart (charts_after e gl gt (map_option Num ct) a)"
    and "ram_chart (fst (update_all_metrics e a)) =
           ram_chart (charts_after e gl gt (map_option Num ct) a)"
    and "gpu_load_chart (fst (update_all_metrics e a)) =
           gpu_load_chart (charts_after e gl gt (map_option Num ct) a)"
    and "gpu_temp_chart (fst (update_all_metrics e a)) =
           gpu_temp_chart (charts_after e gl gt (map_option Num ct) a)"
    and "cpu_temp_chart (fst (update_all_metrics e a)) =
           cpu_temp_chart (charts_after e gl gt (map_option Num ct) a)"
  by (simp_all add: tick_unfold [OF assms] split: prod.splits option.splits)

lemma tick_repo:
  assumes "read_gpu_metrics (getGPUs e) = Inr (gl, gt)"
      and "snd (read_cpu_temperature e) = Inr ct"
      and "insert_measurement (repo a) (now e) (Num (cpu_percent e))
             (Num (virtual_memory_percent e)) gl gt (map_option Num ct) = (r, None)"
  shows "repo (fst (update_all_metrics e a)) = r"
    and "after_queue (fst (update_all_metrics e a)) = after_queue a @ [1000]"
    and "snd (update_all_metrics e a) = None"
  by (simp_all add: tick_unfold [OF assms(1,2)] assms(3))

lemma tick_persisted:
  assumes "read_gpu_metrics (getGPUs e) = Inr (gl, gt)"
      and "snd (read_cpu_temperature e) = Inr ct"
      and "view (repo a) = Some t" and "writable (repo a)" and "insert_ready t"
  shows "\<exists>row. fresh_read (repo (fst (update_all_metrics e a))) =
                  Some (t \<lparr> rows := rows t @ [row], seq := seq t + 1 \<rparr>)
             \<and> field t row ''gpu_load_percent'' = Some (sql_of_float gl)
             \<and> field t row ''gpu_temp_c'' = Some (sql_of_float gt)
             \<and> field t row ''cpu_temp_c'' = Some (sql_of_float (map_option Num ct))"
proof -
  define asg where "asg = [(''captured_at'', Text (now e)), (''cpu_percent'', Real (cpu_percent e)),
                  (''ram_percent'', Real (virtual_memory_percent e)),
                  (''gpu_load_percent'', sql_of_float gl),
                  (''gpu_temp_c'', sql_of_float gt),
                  (''cpu_temp_c'', sql_of_float (map_option Num ct))]"
  have ins: "insert_measurement (repo a) (now e) (Num (cpu_percent e))
               (Num (virtual_memory_percent e)) gl gt (map_option Num ct) =
             ((repo a) \<lparr> durable := Some (t \<lparr> rows := rows t @ [new_row t asg],
                                                seq := seq t + 1 \<rparr>), txn := None \<rparr>, None)"
    by (rule insert_measurement_row [OF assms(3-5) asg_def])
  have has: "has_column t ''gpu_load_percent''" "has_column t ''gpu_temp_c''"
            "has_column t ''cpu_temp_c''"
    using assms(5)
    by (simp_all add: insert_ready_def required_columns_def optional_columns_def)
  have a: "assigned asg ''gpu_load_percent'' = Some (sql_of_float gl)"
          "assigned asg ''gpu_temp_c'' = Some (sql_of_float gt)"
          "assigned asg ''cpu_temp_c'' = Some (sql_of_float (map_option Num ct))"
    by (simp_all add: asg_def assigned_def sql_name_eq_def sql_lower_def)
  show ?thesis
    apply (rule exI [of _ "new_row t asg"])
    apply (simp add: tick_repo(1) [OF assms(1,2) ins] fresh_read_def
        field_new_row [OF has(1) a(1)] field_new_row [OF has(2) a(2)]
        field_new_row [OF has(3) a(3)])
    done
qed

text \<open>
  C10. In a tick that reaches the chart updates, each optional metric that is \<open>None\<close>
  appends \<open>0\<close> to its history, exactly as a measured \<open>0\<close> does, so the history is the
  same in both cases. The display text holds a formatted float exactly when the metric
  is not \<open>None\<close>, and in the row committed by the tick the metric's column holds
  \<^verbatim>\<open>NULL\<close> for \<open>None\<close> and the number \<open>0\<close> for a measured \<open>0\<close>.
\<close>

theorem unknown_pushed_as_zero:
  assumes "read_gpu_metrics (getGPUs e) = Inr (gl, gt)"
      and "snd (read_cpu_temperature e) = Inr ct"
      and "a' = fst (update_all_metrics e a)"
  shows "(gl = None \<or> gl = Some (Num 0) \<longrightarrow>
            history (gpu_load_chart a') =
              deque_append (max_points (gpu_load_chart a)) (history (gpu_load_chart a)) (Num 0))
       \<and> (gt = None \<or> gt = Some (Num 0) \<longrightarrow>
            history (gpu_temp_chart a') =
              deque_append (max_points (gpu_temp_chart a)) (history (gpu_temp_chart a)) (Num 0))
       \<and> (ct = None \<or> ct = Some 0 \<longrightarrow>
            history (cpu_temp_chart a') =
              deque_append (max_points (cpu_temp_chart a)) (history (cpu_temp_chart a)) (Num 0))
       \<and> (list_ex is_number (value_var (gpu_load_chart a')) \<longleftrightarrow> gl \<noteq> None)
       \<and> (list_ex is_number (value_var (gpu_temp_chart a')) \<longleftrightarrow> gt \<noteq> None)
       \<and> (list_ex is_number (value_var (cpu_temp_chart a')) \<longleftrightarrow> ct \<noteq> None)
       \<and> (\<forall>t. view (repo a) = Some t \<and> writable (repo a) \<and> insert_ready t \<longrightarrow>
             (\<exists>row. fresh_read (repo a') = Some (t \<lparr> rows := rows t @ [row], seq := seq t + 1 \<rparr>)
                  \<and> (gl = None \<longrightarrow> field t row ''gpu_load_percent'' = Some Null)
                  \<and> (gl = Some (Num 0) \<longrightarrow> field t row ''gpu_load_percent'' = Some (Real 0))
                  \<and> (gt = None \<longrightarrow> field t row ''gpu_temp_c'' = Some Null)
                  \<and> (gt = Some (Num 0) \<longrightarrow> field t row ''gpu_temp_c'' = Some (Real 0))
                  \<and> (ct = None \<longrightarrow> field t row ''cpu_temp_c'' = Some Null)
                  \<and> (ct = Some 0 \<longrightarrow> field t row ''cpu_temp_c'' = Some (Real 0))))"
proof -
  note ch = tick_charts [OF assms(1,2), of a]
  have h: "gl = None \<or> gl = Some (Num 0) \<longrightarrow>
            history (gpu_load_chart a') =
              deque_append (max_points (gpu_load_chart a)) (history (gpu_load_chart a)) (Num 0)"
       "gt = None \<or> gt = Some (Num 0) \<longrightarrow>
            history (gpu_temp_chart a') =
              deque_append (max_points (gpu_temp_chart a)) (history (gpu_temp_chart a)) (Num 0)"
       "ct = None \<or> ct = Some 0 \<longrightarrow>
            history (cpu_temp_chart a') =
              deque_append (max_points (cpu_temp_chart a)) (history (cpu_temp_chart a)) (Num 0)"
    by (auto simp: assms(3) ch charts_after_fields)
  have v: "list_ex is_number (value_var (gpu_load_chart a')) \<longleftrightarrow> gl \<noteq> None"
          "list_ex is_number (value_var (gpu_temp_chart a')) \<longleftrightarrow> gt \<noteq> None"
          "list_ex is_number (value_var (cpu_temp_chart a')) \<longleftrightarrow> ct \<noteq> None"
    by (auto simp: assms(3) ch charts_after_texts split: option.splits)
  have p: "\<exists>row. fresh_read (repo a') = Some (t \<lparr> rows := rows t @ [row], seq := seq t + 1 \<rparr>)
                  \<and> (gl = None \<longrightarrow> field t row ''gpu_load_percent'' = Some Null)
                  \<and> (gl = Some (Num 0) \<longrightarrow> field t row ''gpu_load_percent'' = Some (Real 0))
                  \<and> (gt = None \<longrightarrow> field t row ''gpu_temp_c'' = Some Null)
                  \<and> (gt = Some (Num 0) \<longrightarrow> field t row ''gpu_temp_c'' = Some (Real 0))
                  \<and> (ct = None \<longrightarrow> field t row ''cpu_temp_c'' = Some Null)
                  \<and> (ct = Some 0 \<longrightarrow> field t row ''cpu_temp_c'' = Some (Real 0))"
    if "view (repo a) = Some t \<and> writable (repo a) \<and> insert_ready t" for t
  proof -
    from that tick_persisted [OF assms(1,2), of a t] obtain row where
      row: "fresh_read (repo a') = Some (t \<lparr> rows := rows t @ [row], seq := seq t + 1 \<rparr>)"
           "field t row ''gpu_load_percent'' = Some (sql_of_float gl)"
           "field t row ''gpu_temp_c'' = Some (sql_of_float gt)"
           "field t row ''cpu_temp_c'' = Some (sql_of_float (map_option Num ct))"
      unfolding assms(3) by blast
    show ?thesis
      by (rule exI [of _ row]) (auto simp: row)
  qed
  from h v p show ?thesis by blast
qed

lemma env_bare_reads:
  "read_gpu_metrics (getGPUs env_bare) = Inr (None, None)"
  "snd (read_cpu_temperature env_bare) = Inr None"
  by (simp_all add: env_bare_def read_gpu_metrics_def read_cpu_temperature_cases
      sensor_values_def read_cpu_temp_from_lm_sensors_def read_cpu_temp_from_sysfs_def)

lemma env_idle_reads:
  "read_gpu_metrics (getGPUs env_idle) = Inr (Some (Num 0), Some (Num 0))"
  "snd (read_cpu_temperature env_idle) = Inr None"
  by (simp_all add: env_idle_def env_bare_def read_gpu_metrics_def read_cpu_temperature_cases
      sensor_values_def read_cpu_temp_from_lm_sensors_def read_cpu_temp_from_sysfs_def)

lemma push_zero_after_seven:
  "deque_append 90 (replicate 89 x @ [y]) z = replicate 88 x @ [y, z]"
proof -
  have "replicate 89 x = x # replicate 88 x"
    by (simp add: replicate_Suc [symmetric] del: replicate_Suc)
  then show ?thesis
    by (simp add: deque_append_def)
qed

theorem unknown_pushed_as_zero_witness:
  "history (gpu_load_chart (fst (update_all_metrics env_bare (app1 repo_ready)))) =
     replicate 88 (Num 0) @ [Num 7, Num 0]
   \<and> history (gpu_load_chart (fst (update_all_metrics env_idle (app1 repo_ready)))) =
     replicate 88 (Num 0) @ [Num 7, Num 0]
   \<and> history (gpu_load_chart (app1 repo_ready)) = replicate 89 (Num 0) @ [Num 7]
   \<and> \<not> list_ex is_number
         (value_var (gpu_load_chart (fst (update_all_metrics env_bare (app1 repo_ready)))))
   \<and> list_ex is_number
         (value_var (gpu_load_chart (fst (update_all_metrics env_idle (app1 repo_ready)))))
   \<and> (\<exists>row. fresh_read (repo (fst (update_all_metrics env_bare (app1 repo_ready)))) =
               Some (measurements_new \<lparr> rows := rows measurements_new @ [row],
                                        seq := seq measurements_new + 1 \<rparr>)
            \<and> field measurements_new row ''gpu_load_percent'' = Some Null)
   \<and> (\<exists>row. fresh_read (repo (fst (update_all_metrics env_idle (app1 repo_ready)))) =
               Some (measurements_new \<lparr> rows := rows measurements_new @ [row],
                                        seq := seq measurements_new + 1 \<rparr>)
            \<and> field measurements_new row ''gpu_load_percent'' = Some (Real 0))"
proof -
  have r: "view (repo (app1 repo_ready)) = Some measurements_new
           \<and> writable (repo (app1 repo_ready)) \<and> insert_ready measurements_new"
    using repo_ready_insertable by (simp add: app1_def)
  have c: "max_points (gpu_load_chart (app1 repo_ready)) = 90"
          "history (gpu_load_chart (app1 repo_ready)) = replicate 89 (Num 0) @ [Num 7]"
    by (simp_all add: app1_def chart1_def)
  note b = unknown_pushed_as_zero [OF env_bare_reads refl, of "app1 repo_ready"]
  note i = unknown_pushed_as_zero [OF env_idle_reads refl, of "app1 repo_ready"]
  have 1: "history (gpu_load_chart (fst (update_all_metrics env_bare (app1 repo_ready)))) =
             replicate 88 (Num 0) @ [Num 7, Num 0]"
    using b by (simp add: c push_zero_after_seven)
  have 2: "history (gpu_load_chart (fst (update_all_metrics env_idle (app1 repo_ready)))) =
             replicate 88 (Num 0) @ [Num 7, Num 0]"
    using i by (simp add: c push_zero_after_seven)
  have 3: "\<not> list_ex is_number
         (value_var (gpu_load_chart (fst (update_all_metrics env_bare (app1 repo_ready)))))"
    using b by simp
  have 4: "list_ex is_number
         (value_var (gpu_load_chart (fst (update_all_metrics env_idle (app1 repo_ready)))))"
    using i by simp
  have 5: "\<exists>row. fresh_read (repo (fst (update_all_metrics env_bare (app1 repo_ready)))) =
               Some (measurements_new \<lparr> rows := rows measurements_new @ [row],
                                        seq := seq measurements_new + 1 \<rparr>)
            \<and> field measurements_new row ''gpu_load_percent'' = Some Null"
    using b r by auto
  have 6: "\<exists>row. fresh_read (repo (fst (update_all_metrics env_idle (app1 repo_ready)))) =
               Some (measurements_new \<lparr> rows := rows measurements_new @ [row],
                                        seq := seq measurements_new + 1 \<rparr>)
            \<and> field measurements_new row ''gpu_load_percent'' = Some (Real 0)"
    using i r by auto
  from 1 2 3 4 5 6 c(2) show ?thesis by simp
qed

text \<open>
  A GPU temperature of \<^verbatim>\<open>nan\<close> is not \<open>None\<close>: the tick appends \<^verbatim>\<open>nan\<close> to the
  history, and the committed row holds \<^verbatim>\<open>NULL\<close>.
\<close>

lemma env_nan_reads:
  "read_gpu_metrics (getGPUs env_nan) = Inr (Some (Num 50), Some NaN)"
  "snd (read_cpu_temperature env_nan) = Inr None"
  by (simp_all add: env_nan_def env_bare_def read_gpu_metrics_def read_cpu_temperature_cases
      sensor_values_def read_cpu_temp_from_lm_sensors_def read_cpu_temp_from_sysfs_def)

lemma nan_temperature_tick:
  "history (gpu_temp_chart (fst (update_all_metrics env_nan (app1 repo_ready)))) =
     replicate 88 (Num 0) @ [Num 7, NaN]
   \<and> (\<exists>row. fresh_read (repo (fst (update_all_metrics env_nan (app1 repo_ready)))) =
               Some (measurements_new \<lparr> rows := rows measurements_new @ [row],
                                        seq := seq measurements_new + 1 \<rparr>)
            \<and> field measurements_new row ''gpu_temp_c'' = Some Null)"
proof -
  have r: "view (repo (app1 repo_ready)) = Some measurements_new"
          "writable (repo (app1 repo_ready))" "insert_ready measurements_new"
    using repo_ready_insertable by (simp_all add: app1_def)
  have 1: "history (gpu_temp_chart (fst (update_all_metrics env_nan (app1 repo_ready)))) =
             replicate 88 (Num 0) @ [Num 7, NaN]"
    by (simp add: tick_charts [OF env_nan_reads] charts_after_fields)
       (simp add: app1_def chart1_def push_zero_after_seven)
  from tick_persisted [OF env_nan_reads r] 1 show ?thesis by auto
qed

section \<open>Failing sources and a failing store\<close>






lemma run_timer_insert_fails:
  assumes "after_queue a = delay # later"
      and "read_gpu_metrics (getGPUs e) = Inr (gl, gt)"
      and "snd (read_cpu_temperature e) = Inr ct"
      and "insert_measurement (repo a) (now e) (Num (cpu_percent e))
             (Num (virtual_memory_percent e)) gl gt (map_option Num ct) = (r, Some x)"
  shows "run_timer e a =
           (charts_after e gl gt (map_option Num ct) (a \<lparr> after_queue := later \<rparr>))
             \<lparr> repo := r, reported := reported a @ [x] \<rparr>"
  by (simp add: run_timer_def assms(1) tick_unfold [OF assms(2,3)] assms(4)
      charts_after_fields)

lemma run_timer_idle: "after_queue a = [] \<Longrightarrow> run_timer e a = a"
  by (simp add: run_timer_def)

text \<open>
  C3, as the code has it. When a tick runs as a timer callback and the store append
  raises, the five histories have received the values of the tick, the exception leaves
  \<open>update_all_metrics\<close> and is handed to Tk's report of callback exceptions, the
  repository is the connection as the failed call left it, and no timer is registered
  for a next tick: with no other timer pending, the main loop runs no further tick.
\<close>

theorem store_failure_tick:
  assumes "after_queue a = delay # later"
      and "read_gpu_metrics (getGPUs e) = Inr (gl, gt)"
      and "snd (read_cpu_temperature e) = Inr ct"
      and "insert_measurement (repo a) (now e) (Num (cpu_percent e))
             (Num (virtual_memory_percent e)) gl gt (map_option Num ct) = (r, Some x)"
      and "a' = run_timer e a"
  shows "history (cpu_chart a') =
           deque_append (max_points (cpu_chart a)) (history (cpu_chart a))
             (Num (cpu_percent e))
       \<and> history (ram_chart a') =
           deque_append (max_points (ram_chart a)) (history (ram_chart a))
             (Num (virtual_memory_percent e))
       \<and> history (gpu_load_chart a') =
           deque_append (max_points (gpu_load_chart a)) (history (gpu_load_chart a))
             (case gl of None \<Rightarrow> Num 0 | Some v \<Rightarrow> v)
       \<and> history (gpu_temp_chart a') =
           deque_append (max_points (gpu_temp_chart a)) (history (gpu_temp_chart a))
             (case gt of None \<Rightarrow> Num 0 | Some v \<Rightarrow> v)
       \<and> history (cpu_temp_chart a') =
           deque_append (max_points (cpu_temp_chart a)) (history (cpu_temp_chart a))
             (case ct of None \<Rightarrow> Num 0 | Some v \<Rightarrow> Num v)
       \<and> snd (update_all_metrics e (a \<lparr> after_queue := later \<rparr>)) = Some x
       \<and> reported a' = reported a @ [x]
       \<and> repo a' = r
       \<and> after_queue a' = later
       \<and> (later = [] \<longrightarrow> run_timer e2 a' = a')"
proof -
  have a': "a' = (charts_after e gl gt (map_option Num ct) (a \<lparr> after_queue := later \<rparr>))
                   \<lparr> repo := r, reported := reported a @ [x] \<rparr>"
    unfolding assms(5) by (rule run_timer_insert_fails [OF assms(1-4)])
  have s: "snd (update_all_metrics e (a \<lparr> after_queue := later \<rparr>)) = Some x"
    by (simp add: tick_unfold [OF assms(2,3)] assms(4))
  have q: "after_queue a' = later"
    by (simp add: a' charts_after_fields)
  have i: "run_timer e2 a' = a'" if "later = []"
    using q that by (simp add: run_timer_idle)
  show ?thesis
    using s q i by (cases ct) (simp_all add: a' charts_after_fields)
qed

lemma stuck_insert:
  "insert_measurement repo_stuck ts (Num cpu) (Num ram) gl gt ct =
     (repo_stuck \<lparr> txn := Some (Some measurements_new) \<rparr>, Some OperationalError)"
  by (simp add: insert_measurement_def exec_insert_def repo_stuck_def view_def
      begin_implicit_def measurements_new_def sql_name_eq_def sql_lower_def)

text \<open>
  C3, as stated, fails: on a store that cannot be written the timer tick reports
  \<^verbatim>\<open>OperationalError\<close>, leaves no timer registered, and the main loop stays idle on
  its next turn.
\<close>

theorem store_failure_ends_ticks:
  "reported (run_timer env_bare (app0 repo_stuck \<lparr> after_queue := [1000] \<rparr>)) = [OperationalError]
   \<and> after_queue (run_timer env_bare (app0 repo_stuck \<lparr> after_queue := [1000] \<rparr>)) = []
   \<and> run_timer env_idle (run_timer env_bare (app0 repo_stuck \<lparr> after_queue := [1000] \<rparr>)) =
       run_timer env_bare (app0 repo_stuck \<lparr> after_queue := [1000] \<rparr>)"
proof -
  have i: "insert_measurement (repo (app0 repo_stuck \<lparr> after_queue := [1000] \<rparr>)) (now env_bare)
             (Num (cpu_percent env_bare)) (Num (virtual_memory_percent env_bare))
             None None (map_option Num None)
           = (repo_stuck \<lparr> txn := Some (Some measurements_new) \<rparr>, Some OperationalError)"
    by (simp add: app0_def stuck_insert)
  have q: "after_queue (app0 repo_stuck \<lparr> after_queue := [1000] \<rparr>) = [1000]"
    by simp
  note r = run_timer_insert_fails [OF q env_bare_reads i]
  have 1: "reported (run_timer env_bare (app0 repo_stuck \<lparr> after_queue := [1000] \<rparr>))
             = [OperationalError]"
    unfolding r by (simp add: app0_def)
  have 2: "after_queue (run_timer env_bare (app0 repo_stuck \<lparr> after_queue := [1000] \<rparr>)) = []"
    unfolding r by (simp add: charts_after_fields)
  from 1 2 run_timer_idle [OF 2] show ?thesis by simp
qed

theorem store_failure_tick_witness:
  "history (cpu_chart (run_timer env_bare (app1 repo_stuck \<lparr> after_queue := [1000] \<rparr>))) =
     replicate 88 (Num 0) @ [Num 7, Num 12.5]
   \<and> reported (run_timer env_bare (app1 repo_stuck \<lparr> after_queue := [1000] \<rparr>)) =
       [OperationalError]
   \<and> after_queue (run_timer env_bare (app1 repo_stuck \<lparr> after_queue := [1000] \<rparr>)) = []
   \<and> repo (run_timer env_bare (app1 repo_stuck \<lparr> after_queue := [1000] \<rparr>)) =
       repo_stuck \<lparr> txn := Some (Some measurements_new) \<rparr>"
proof -
  have i: "insert_measurement (repo (app1 repo_stuck \<lparr> after_queue := [1000] \<rparr>)) (now env_bare)
             (Num (cpu_percent env_bare)) (Num (virtual_memory_percent env_bare))
             None None (map_option Num None)
           = (repo_stuck \<lparr> txn := Some (Some measurements_new) \<rparr>, Some OperationalError)"
    by (simp add: app1_def stuck_insert)
  have q: "after_queue (app1 repo_stuck \<lparr> after_queue := [1000] \<rparr>) = [1000]"
    by simp
  have c: "max_points (cpu_chart (app1 repo_stuck)) = 90"
          "history (cpu_chart (app1 repo_stuck)) = replicate 89 (Num 0) @ [Num 7]"
          "reported (app1 repo_stuck) = []"
          "cpu_percent env_bare = 12.5"
    by (simp_all add: app1_def chart1_def env_bare_def)
  from store_failure_tick [OF q env_bare_reads i refl]
  show ?thesis
    by (simp add: c push_zero_after_seven)
qed

end
